theory Spec2Isabelle
  imports Main
begin

section \<open>Strings\<close>

text \<open>
  The text of the CSV document is Unicode, and the validator looks at its characters one by
  one, so a field of a row, a column name and a URL are lists of code points: \<open>Latin c\<close> is
  the code point of the number of \<open>c\<close>, below 256, and \<open>Wide n\<close> is the code point
  \<open>256 + n\<close>. \<open>bytes\<close> are a \<open>string\<close>. The other strings of the program (messages, statuses,
  keys, identifiers, names of image formats) are never taken apart by character class and
  are a \<open>string\<close> too: a message that quotes a field holds its UTF-8 encoding.
\<close>

datatype cp = Latin char | Wide nat

type_synonym ustring = "cp list"

definition ustr :: "string \<Rightarrow> ustring" where
  \<comment> \<open>the text of a literal\<close>
  "ustr s = map Latin s"

definition wide :: "nat \<Rightarrow> cp" where
  \<comment> \<open>the code point of number \<open>n\<close>, for \<open>n\<close> from 256\<close>
  "wide n = Wide (n - 256)"

fun utf8_cp :: "cp \<Rightarrow> string" where
  "utf8_cp (Latin c) =
     (if digit7 c
      then [char_of (192 + (of_char c :: nat) div 64), char_of (128 + (of_char c :: nat) mod 64)]
      else [c])"
| "utf8_cp (Wide k) =
     (let n = 256 + k in
      if n < 2048 then [char_of (192 + n div 64), char_of (128 + n mod 64)]
      else if n < 65536
      then [char_of (224 + n div 4096), char_of (128 + (n div 64) mod 64), char_of (128 + n mod 64)]
      else [char_of (240 + n div 262144), char_of (128 + (n div 4096) mod 64),
            char_of (128 + (n div 64) mod 64), char_of (128 + n mod 64)])"

definition utf8 :: "ustring \<Rightarrow> string" where
  \<comment> \<open>a text inside a message: \<open>f"...{s}"\<close>\<close>
  "utf8 s = concat (map utf8_cp s)"

definition isspace :: "cp \<Rightarrow> bool" where
  \<comment> \<open>\<open>str.isspace\<close> on one character, which is also the class \<open>\s\<close> of \<open>re\<close> on a \<open>str\<close>:
      TAB, LF, VT, FF, CR, FS, GS, RS, US, space, NEL, NBSP, and from 256 the Ogham space
      mark, U+2000 to U+200A, the line and paragraph separators, the narrow no-break space,
      the medium mathematical space and the ideographic space.\<close>
  "isspace c = (c \<in> set ([Latin (CHR 0x09), Latin (CHR 0x0A), Latin (CHR 0x0B),
        Latin (CHR 0x0C), Latin (CHR 0x0D), Latin (CHR 0x1C), Latin (CHR 0x1D),
        Latin (CHR 0x1E), Latin (CHR 0x1F), Latin (CHR 0x20), Latin (CHR 0x85),
        Latin (CHR 0xA0)]
      @ map wide [0x1680, 0x2000, 0x2001, 0x2002, 0x2003, 0x2004, 0x2005, 0x2006, 0x2007,
                  0x2008, 0x2009, 0x200A, 0x2028, 0x2029, 0x202F, 0x205F, 0x3000]))"

definition lower_table :: "(char \<times> char) list" where
  \<comment> \<open>the characters that \<open>str.lower\<close> changes, each with its image: A..Z and the capital
      letters of Latin-1\<close>
  "lower_table = [
      (CHR ''A'', CHR ''a''), (CHR ''B'', CHR ''b''), (CHR ''C'', CHR ''c''), (CHR ''D'', CHR ''d''),
      (CHR ''E'', CHR ''e''), (CHR ''F'', CHR ''f''), (CHR ''G'', CHR ''g''), (CHR ''H'', CHR ''h''),
      (CHR ''I'', CHR ''i''), (CHR ''J'', CHR ''j''), (CHR ''K'', CHR ''k''), (CHR ''L'', CHR ''l''),
      (CHR ''M'', CHR ''m''), (CHR ''N'', CHR ''n''), (CHR ''O'', CHR ''o''), (CHR ''P'', CHR ''p''),
      (CHR ''Q'', CHR ''q''), (CHR ''R'', CHR ''r''), (CHR ''S'', CHR ''s''), (CHR ''T'', CHR ''t''),
      (CHR ''U'', CHR ''u''), (CHR ''V'', CHR ''v''), (CHR ''W'', CHR ''w''), (CHR ''X'', CHR ''x''),
      (CHR ''Y'', CHR ''y''), (CHR ''Z'', CHR ''z''), (CHR 0xC0, CHR 0xE0), (CHR 0xC1, CHR 0xE1),
      (CHR 0xC2, CHR 0xE2), (CHR 0xC3, CHR 0xE3), (CHR 0xC4, CHR 0xE4), (CHR 0xC5, CHR 0xE5),
      (CHR 0xC6, CHR 0xE6), (CHR 0xC7, CHR 0xE7), (CHR 0xC8, CHR 0xE8), (CHR 0xC9, CHR 0xE9),
      (CHR 0xCA, CHR 0xEA), (CHR 0xCB, CHR 0xEB), (CHR 0xCC, CHR 0xEC), (CHR 0xCD, CHR 0xED),
      (CHR 0xCE, CHR 0xEE), (CHR 0xCF, CHR 0xEF), (CHR 0xD0, CHR 0xF0), (CHR 0xD1, CHR 0xF1),
      (CHR 0xD2, CHR 0xF2), (CHR 0xD3, CHR 0xF3), (CHR 0xD4, CHR 0xF4), (CHR 0xD5, CHR 0xF5),
      (CHR 0xD6, CHR 0xF6), (CHR 0xD8, CHR 0xF8), (CHR 0xD9, CHR 0xF9), (CHR 0xDA, CHR 0xFA),
      (CHR 0xDB, CHR 0xFB), (CHR 0xDC, CHR 0xFC), (CHR 0xDD, CHR 0xFD), (CHR 0xDE, CHR 0xFE)]"

definition lower_char :: "char \<Rightarrow> char" where
  "lower_char c = (case find (\<lambda>p. fst p = c) lower_table of None \<Rightarrow> c | Some p \<Rightarrow> snd p)"

definition lower :: "string \<Rightarrow> string" where
  \<comment> \<open>\<open>s.lower()\<close> on the name of an image format, a text over code points below 256\<close>
  "lower s = map lower_char s"

definition strip :: "ustring \<Rightarrow> ustring" where
  \<comment> \<open>\<open>s.strip()\<close>\<close>
  "strip s = rev (dropWhile isspace (rev (dropWhile isspace s)))"

fun split_on :: "'a \<Rightarrow> 'a list \<Rightarrow> 'a list list" where
  \<comment> \<open>\<open>s.split(sep)\<close> at a separator of one character: never empty;
      \<open>''.split(',') == ['']\<close>.\<close>
  "split_on sep [] = [[]]"
| "split_on sep (c # cs) =
     (if c = sep then [] # split_on sep cs
      else (case split_on sep cs of
              [] \<Rightarrow> [[c]]
            | x # xs \<Rightarrow> (c # x) # xs))"

definition split_comma :: "ustring \<Rightarrow> ustring list" where
  \<comment> \<open>\<open>s.split(',')\<close>\<close>
  "split_comma s = split_on (Latin CHR '','') s"

definition remove_dashes :: "string \<Rightarrow> string" where
  \<comment> \<open>\<open>s.replace("-", "")\<close>\<close>
  "remove_dashes s = filter (\<lambda>c. c \<noteq> CHR ''-'') s"

section \<open>Regular expressions\<close>

text \<open>
  The two patterns of the program use character classes, concatenation, alternation and
  the star only, so \<open>re.match(p, s) is not None\<close> is decided by derivatives.
\<close>

datatype rx =
    Zero
  | Eps
  | Cls "cp \<Rightarrow> bool"
  | Seq rx rx
  | Alt rx rx
  | Star rx

fun nullable :: "rx \<Rightarrow> bool" where
  "nullable Zero = False"
| "nullable Eps = True"
| "nullable (Cls P) = False"
| "nullable (Seq r s) = (nullable r \<and> nullable s)"
| "nullable (Alt r s) = (nullable r \<or> nullable s)"
| "nullable (Star r) = True"

fun deriv :: "cp \<Rightarrow> rx \<Rightarrow> rx" where
  "deriv c Zero = Zero"
| "deriv c Eps = Zero"
| "deriv c (Cls P) = (if P c then Eps else Zero)"
| "deriv c (Seq r s) =
     (if nullable r then Alt (Seq (deriv c r) s) (deriv c s) else Seq (deriv c r) s)"
| "deriv c (Alt r s) = Alt (deriv c r) (deriv c s)"
| "deriv c (Star r) = Seq (deriv c r) (Star r)"

fun re_full :: "rx \<Rightarrow> ustring \<Rightarrow> bool" where
  "re_full r [] = nullable r"
| "re_full r (c # cs) = re_full (deriv c r) cs"

definition re_match_dollar :: "rx \<Rightarrow> ustring \<Rightarrow> bool" where
  \<comment> \<open>\<open>re.match('^' + r + '$', s) is not None\<close>, without \<open>re.MULTILINE\<close>: the \<open>$\<close> matches
      at the end of the string and just before a newline that ends the string.\<close>
  "re_match_dollar r s =
     (re_full r s \<or> (s \<noteq> [] \<and> last s = Latin (CHR 0x0A) \<and> re_full r (butlast s)))"

definition chr_rx :: "char \<Rightarrow> rx" where
  "chr_rx a = Cls (\<lambda>c. c = Latin a)"

fun str_rx :: "string \<Rightarrow> rx" where
  "str_rx [] = Eps"
| "str_rx (a # as) = Seq (chr_rx a) (str_rx as)"

definition ignorecase :: "char \<Rightarrow> cp list" where
  \<comment> \<open>the characters that a lower-case letter of a pattern matches under \<open>re.IGNORECASE\<close>
      on a \<open>str\<close>: the letter, its capital, and for \<open>s\<close> the long s (U+017F), for \<open>i\<close> the
      capital I with dot (U+0130) and the dotless i (U+0131), for \<open>k\<close> the Kelvin sign
      (U+212A)\<close>
  "ignorecase a =
     Latin a
     # (case find (\<lambda>p. snd p = a) (take 26 lower_table) of
          None \<Rightarrow> []
        | Some p \<Rightarrow> [Latin (fst p)])
     @ (if a = CHR ''s'' then [wide 0x17F]
        else if a = CHR ''i'' then [wide 0x130, wide 0x131]
        else if a = CHR ''k'' then [wide 0x212A]
        else [])"

definition ichr_rx :: "char \<Rightarrow> rx" where
  \<comment> \<open>a lower-case letter of the pattern under \<open>re.IGNORECASE\<close>\<close>
  "ichr_rx a = Cls (\<lambda>c. c \<in> set (ignorecase a))"

fun istr_rx :: "string \<Rightarrow> rx" where
  "istr_rx [] = Eps"
| "istr_rx (a # as) = Seq (ichr_rx a) (istr_rx as)"

definition caseless :: "ustring \<Rightarrow> string \<Rightarrow> bool" where
  \<comment> \<open>a text is a word of lower-case letters but for the case of its letters\<close>
  "caseless s w = list_all2 (\<lambda>c a. c \<in> set (ignorecase a)) s w"

text \<open>The language of a pattern, against which the matcher is proved below.\<close>

definition conc :: "ustring set \<Rightarrow> ustring set \<Rightarrow> ustring set" where
  "conc A B = {xs @ ys | xs ys. xs \<in> A \<and> ys \<in> B}"

inductive_set star :: "ustring set \<Rightarrow> ustring set" for A :: "ustring set" where
  star_nil: "[] \<in> star A"
| star_app: "xs \<in> A \<Longrightarrow> ys \<in> star A \<Longrightarrow> xs @ ys \<in> star A"

fun lang :: "rx \<Rightarrow> ustring set" where
  "lang Zero = {}"
| "lang Eps = {[]}"
| "lang (Cls P) = {[c] | c. P c}"
| "lang (Seq r s) = conc (lang r) (lang s)"
| "lang (Alt r s) = lang r \<union> lang s"
| "lang (Star r) = star (lang r)"

section \<open>Field checks of the validator\<close>

definition alnum_space :: "cp \<Rightarrow> bool" where
  \<comment> \<open>the class \<open>[a-zA-Z0-9 ]\<close>\<close>
  "alnum_space c =
     (c \<in> set (ustr ''abcdefghijklmnopqrstuvwxyzABCDEFGHIJKLMNOPQRSTUVWXYZ0123456789 ''))"

definition is_alphanumeric_with_spaces :: "ustring \<Rightarrow> bool" where
  \<comment> \<open>\<open>re.match(r'^[a-zA-Z0-9 ]*$', s) is not None\<close>\<close>
  "is_alphanumeric_with_spaces s = re_match_dollar (Star (Cls alnum_space)) s"

definition url_first :: "cp \<Rightarrow> bool" where
  \<comment> \<open>the class \<open>[^\s/$.?#]\<close>\<close>
  "url_first c = (\<not> isspace c \<and> c \<notin> set (ustr ''/$.?#''))"

definition not_newline :: "cp \<Rightarrow> bool" where
  \<comment> \<open>the dot of a pattern without \<open>re.DOTALL\<close>\<close>
  "not_newline c = (c \<noteq> Latin (CHR 0x0A))"

definition not_space :: "cp \<Rightarrow> bool" where
  \<comment> \<open>the class \<open>[^\s]\<close>\<close>
  "not_space c = (\<not> isspace c)"

definition url_pattern :: rx where
  \<comment> \<open>\<open>(http|https)://[^\s/$.?#].[^\s]*\.(jpg|jpeg|png|gif)\<close> under \<open>re.IGNORECASE\<close>\<close>
  "url_pattern =
     Seq (Alt (istr_rx ''http'') (istr_rx ''https''))
    (Seq (str_rx ''://'')
    (Seq (Cls url_first)
    (Seq (Cls not_newline)
    (Seq (Star (Cls not_space))
    (Seq (chr_rx CHR ''.'')
         (Alt (istr_rx ''jpg'') (Alt (istr_rx ''jpeg'') (Alt (istr_rx ''png'') (istr_rx ''gif''))))
    )))))"

definition is_valid_image_url :: "ustring \<Rightarrow> bool" where
  "is_valid_image_url url = re_match_dollar url_pattern url"

section \<open>Exceptions, configuration and collaborators\<close>

datatype exn =
    HTTPException nat string  \<comment> \<open>\<open>HTTPException(status_code, detail)\<close>\<close>
  | Exception string          \<comment> \<open>any other exception \<open>e\<close>, with \<open>str(e)\<close>\<close>

record config =
  AWS_REGION :: string
  AWS_BUCKET_NAME :: string
  AWS_IMAGE_BUCKET :: string
  VALID_HEADERS :: "ustring list"
  MAX_FILE_SIZE :: int
  IMAGE_QUALITY :: int

record image =
  format :: string
  pixels :: string

record save_args =
  \<comment> \<open>the keyword arguments of one \<open>image.save(output_io, ...)\<close>\<close>
  save_format :: string
  quality :: "int option"
  compress_level :: "int option"

datatype cell =
    Str ustring             \<comment> \<open>a field of an input row\<close>
  | StrList "string list"   \<comment> \<open>a list object put into a row; \<open>csv.writer\<close> writes its \<open>str()\<close>\<close>

text \<open>
  The libraries the program calls (boto3, requests, PIL, csv, uuid, the codec and the string
  conversions of Python objects) are parameters of the model. An AWS call fails when the
  fault schedule has a message at the number of that call; an image fetch fails by URL.
  \<open>decode_utf8\<close> fails on bytes that are no UTF-8 text; the text it returns is held as its
  UTF-8 encoding, and \<open>csv_reader\<close> gives the rows the reader yields from it, each field a
  list of code points, and the error the reader raises after them, if any.
  \<open>wide_digit\<close> says which code points from 256 are digits for \<open>str.isdigit\<close>, a table of
  the Unicode database: \<open>wide_digit lib n\<close> is about the code point \<open>256 + n\<close>.
\<close>

record collaborators =
  fault :: "nat \<Rightarrow> string option"
  http_get :: "ustring \<Rightarrow> string + string"
  image_open :: "string \<Rightarrow> string + image"
  image_save :: "image \<Rightarrow> save_args \<Rightarrow> string + string"
  decode_utf8 :: "string \<Rightarrow> string + string"
  csv_reader :: "string \<Rightarrow> ustring list list \<times> string option"
  csv_writer :: "cell list list \<Rightarrow> string"
  uuid4 :: "nat \<Rightarrow> string"
  str_http :: "nat \<Rightarrow> string \<Rightarrow> string"
  repr_list :: "ustring list \<Rightarrow> string"
  wide_digit :: "nat \<Rightarrow> bool"

definition str_exn :: "collaborators \<Rightarrow> exn \<Rightarrow> string" where
  \<comment> \<open>\<open>str(e)\<close>\<close>
  "str_exn lib e = (case e of HTTPException c d \<Rightarrow> str_http lib c d | Exception m \<Rightarrow> m)"

section \<open>The stores\<close>

record Item =
  requestId :: string
  status :: string

record s3_object =
  body :: string
  metadata :: "(string \<times> string) list"

record upload_file =
  content_type :: string
  filename :: string
  content :: string

record world =
  table :: "string \<rightharpoonup> Item"                     \<comment> \<open>the DynamoDB table, by \<open>requestId\<close>\<close>
  s3 :: "string \<times> string \<rightharpoonup> s3_object"        \<comment> \<open>S3, by bucket and key\<close>
  aws_calls :: nat                                \<comment> \<open>AWS calls made so far\<close>
  uuids :: nat                                    \<comment> \<open>identifiers drawn so far\<close>
  background_tasks :: "string list"               \<comment> \<open>\<open>process_file\<close> runs scheduled, by \<open>requestId\<close>\<close>

definition tick :: "world \<Rightarrow> world" where
  "tick w = w\<lparr>aws_calls := aws_calls w + 1\<rparr>"

definition write_to_db :: "collaborators \<Rightarrow> Item \<Rightarrow> world \<Rightarrow> (exn + unit) \<times> world" where
  "write_to_db lib item w =
     (case fault lib (aws_calls w) of
        Some m \<Rightarrow> (Inl (HTTPException 500 (''Error occurred while writing to DB: '' @ m)), tick w)
      | None \<Rightarrow> (Inr (), (tick w)\<lparr>table := (table w)(requestId item \<mapsto> item)\<rparr>))"

definition read_from_db :: "collaborators \<Rightarrow> string \<Rightarrow> world \<Rightarrow> (exn + Item) \<times> world" where
  \<comment> \<open>the \<open>raise HTTPException(404)\<close> is inside the \<open>try\<close>, whose handler catches every
      \<open>Exception\<close> and raises a 500 from it.\<close>
  "read_from_db lib rid w =
     (let tried =
            (case fault lib (aws_calls w) of
               Some m \<Rightarrow> Inl (Exception m)
             | None \<Rightarrow>
                 (case table w rid of
                    Some item \<Rightarrow> Inr item
                  | None \<Rightarrow> Inl (HTTPException 404 (''requestId: '' @ rid @ '' not found!''))))
      in (case tried of
            Inr item \<Rightarrow> (Inr item, tick w)
          | Inl e \<Rightarrow> (Inl (HTTPException 500 (''Exception occurred: '' @ str_exn lib e)), tick w)))"

definition get_status :: "collaborators \<Rightarrow> string \<Rightarrow> world \<Rightarrow> (exn + Item) \<times> world" where
  "get_status lib rid w = read_from_db lib rid w"

definition csv_key :: "config \<Rightarrow> string \<Rightarrow> string \<times> string" where
  \<comment> \<open>bucket and key \<open>f"{requestId}.csv"\<close> of a job's document\<close>
  "csv_key cfg rid = (AWS_BUCKET_NAME cfg, rid @ ''.csv'')"

definition upload_to_s3 ::
  "collaborators \<Rightarrow> config \<Rightarrow> upload_file \<Rightarrow> string \<Rightarrow> world \<Rightarrow> (exn + unit) \<times> world" where
  \<comment> \<open>\<open>upload_to_s3(file, requestId)\<close>, that is \<open>replace=False\<close>, on an \<open>UploadFile\<close>\<close>
  "upload_to_s3 lib cfg file rid w =
     (let s3_metadata = [(''Content-Type'', content_type file),
                         (''x-amz-meta-original-filename'', filename file)]
      in (case fault lib (aws_calls w) of
            Some m \<Rightarrow>
              (Inl (HTTPException 500 (''Error occurred while writing file to S3: '' @ m)), tick w)
          | None \<Rightarrow>
              (Inr (), (tick w)\<lparr>s3 := (s3 w)(csv_key cfg rid \<mapsto>
                          \<lparr>body = content file, metadata = s3_metadata\<rparr>)\<rparr>)))"

definition upload_to_s3_replace ::
  "collaborators \<Rightarrow> config \<Rightarrow> string \<Rightarrow> string \<Rightarrow> world \<Rightarrow> (exn + unit) \<times> world" where
  \<comment> \<open>\<open>upload_to_s3(csv_buffer, requestId, replace=True)\<close>, on a \<open>BytesIO\<close>\<close>
  "upload_to_s3_replace lib cfg buffer rid w =
     (let s3_metadata = [(''Content-Type'', ''text/csv'')]
      in (case fault lib (aws_calls w) of
            Some m \<Rightarrow>
              (Inl (HTTPException 500 (''Error occurred while writing file to S3: '' @ m)), tick w)
          | None \<Rightarrow>
              (Inr (), (tick w)\<lparr>s3 := (s3 w)(csv_key cfg rid \<mapsto>
                          \<lparr>body = buffer, metadata = s3_metadata\<rparr>)\<rparr>)))"

definition upload_image_to_s3 ::
  "collaborators \<Rightarrow> config \<Rightarrow> string \<Rightarrow> string \<Rightarrow> world \<Rightarrow> (exn + string) \<times> world" where
  "upload_image_to_s3 lib cfg file image_extension w =
     (let file_key = remove_dashes (uuid4 lib (uuids w)) @ ''.'' @ image_extension;
          s3_metadata = [(''Content-Type'', ''image/'' @ image_extension)];
          w1 = w\<lparr>uuids := uuids w + 1\<rparr>
      in (case fault lib (aws_calls w1) of
            Some m \<Rightarrow>
              (Inl (HTTPException 500 (''Error occurred while uploading image to S3: '' @ m)),
               tick w1)
          | None \<Rightarrow>
              (Inr (''https://'' @ AWS_IMAGE_BUCKET cfg @ ''.s3.'' @ AWS_REGION cfg
                      @ ''.amazonaws.com/'' @ file_key),
               (tick w1)\<lparr>s3 := (s3 w1)((AWS_IMAGE_BUCKET cfg, file_key) \<mapsto>
                          \<lparr>body = file, metadata = s3_metadata\<rparr>)\<rparr>)))"

definition no_such_key :: string where
  "no_such_key = ''An error occurred (NoSuchKey) when calling the GetObject operation: The specified key does not exist.''"

definition read_from_s3 ::
  "collaborators \<Rightarrow> config \<Rightarrow> string \<Rightarrow> world \<Rightarrow> (exn + string) \<times> world" where
  \<comment> \<open>no handler of its own: what \<open>get_object\<close> raises is raised to the caller\<close>
  "read_from_s3 lib cfg rid w =
     (case fault lib (aws_calls w) of
        Some m \<Rightarrow> (Inl (Exception m), tick w)
      | None \<Rightarrow>
          (case s3 w (csv_key cfg rid) of
             None \<Rightarrow> (Inl (Exception no_such_key), tick w)
           | Some obj \<Rightarrow> (Inr (body obj), tick w)))"

section \<open>The image transformer\<close>

definition encode_image :: "collaborators \<Rightarrow> config \<Rightarrow> image \<Rightarrow> string + string" where
  \<comment> \<open>the \<open>if\<close>/\<open>elif\<close>/\<open>else\<close> of \<open>compress_image\<close>: one \<open>image.save\<close>\<close>
  "encode_image lib cfg img =
     (if format img \<in> set [''JPEG'', ''JPG'']
      then image_save lib img
             \<lparr>save_format = ''JPEG'', quality = Some (IMAGE_QUALITY cfg), compress_level = None\<rparr>
      else if format img = ''PNG''
      then image_save lib img
             \<lparr>save_format = ''PNG'', quality = None,
              compress_level = Some (IMAGE_QUALITY cfg div 10)\<rparr>
      else image_save lib img
             \<lparr>save_format = format img, quality = None, compress_level = None\<rparr>)"

definition compress_image ::
  "collaborators \<Rightarrow> config \<Rightarrow> ustring \<Rightarrow> world \<Rightarrow> (exn + string) \<times> world" where
  "compress_image lib cfg url w =
     (case http_get lib url of
        Inl m \<Rightarrow> (Inl (Exception m), w)
      | Inr response_content \<Rightarrow>
          (case image_open lib response_content of
             Inl m \<Rightarrow> (Inl (Exception m), w)
           | Inr img \<Rightarrow>
               (case encode_image lib cfg img of
                  Inl m \<Rightarrow> (Inl (Exception m), w)
                | Inr output_io \<Rightarrow> upload_image_to_s3 lib cfg output_io (lower (format img)) w)))"

section \<open>The background run\<close>

fun compress_all ::
  "collaborators \<Rightarrow> config \<Rightarrow> ustring list \<Rightarrow> world \<Rightarrow> (exn + string list) \<times> world" where
  \<comment> \<open>\<open>[compress_image(url) for url in image_urls]\<close>\<close>
  "compress_all lib cfg [] w = (Inr [], w)"
| "compress_all lib cfg (url # urls) w =
     (case compress_image lib cfg url w of
        (Inl e, w1) \<Rightarrow> (Inl e, w1)
      | (Inr u, w1) \<Rightarrow>
          (case compress_all lib cfg urls w1 of
             (Inl e, w2) \<Rightarrow> (Inl e, w2)
           | (Inr us, w2) \<Rightarrow> (Inr (u # us), w2)))"

fun process_rows ::
  "collaborators \<Rightarrow> config \<Rightarrow> ustring list list \<Rightarrow> world \<Rightarrow> (exn + cell list list) \<times> world"
where
  \<comment> \<open>the \<open>for row in csv_reader\<close> loop; the result is what it appends to \<open>new_csv\<close>.
      \<open>row[2]\<close> raises IndexError on a row of fewer than three fields.\<close>
  "process_rows lib cfg [] w = (Inr [], w)"
| "process_rows lib cfg (row # rows) w =
     (if length row < 3 then (Inl (Exception ''list index out of range''), w)
      else
        (case compress_all lib cfg (split_comma (row ! 2)) w of
           (Inl e, w1) \<Rightarrow> (Inl e, w1)
         | (Inr uploaded_urls, w1) \<Rightarrow>
             (case process_rows lib cfg rows w1 of
                (Inl e, w2) \<Rightarrow> (Inl e, w2)
              | (Inr done, w2) \<Rightarrow> (Inr ((map Str row @ [StrList uploaded_urls]) # done), w2))))"

definition build_new_csv ::
  "collaborators \<Rightarrow> config \<Rightarrow> string \<Rightarrow> world \<Rightarrow> (exn + cell list list) \<times> world" where
  \<comment> \<open>the \<open>try\<close> body of \<open>process_file\<close> down to the end of the loop: the value is \<open>new_csv\<close>.
      \<open>next(csv_reader)\<close> on a reader with no row raises StopIteration, whose \<open>str()\<close> is
      empty. \<open>new_csv\<close> starts as \<open>[[headers]]\<close>: one row, holding the list \<open>headers\<close>.\<close>
  "build_new_csv lib cfg rid w =
     (case write_to_db lib \<lparr>requestId = rid, status = ''Processing in progress!''\<rparr> w of
        (Inl e, w1) \<Rightarrow> (Inl e, w1)
      | (Inr _, w1) \<Rightarrow>
     (case read_from_s3 lib cfg rid w1 of
        (Inl e, w2) \<Rightarrow> (Inl e, w2)
      | (Inr file_content, w2) \<Rightarrow>
     (case decode_utf8 lib file_content of
        Inl m \<Rightarrow> (Inl (Exception m), w2)
      | Inr text \<Rightarrow>
     (case csv_reader lib text of
        ([], None) \<Rightarrow> (Inl (Exception []), w2)
      | ([], Some m) \<Rightarrow> (Inl (Exception m), w2)
      | (headers # rows, err) \<Rightarrow>
     (case process_rows lib cfg rows w2 of
        (Inl e, w3) \<Rightarrow> (Inl e, w3)
      | (Inr done, w3) \<Rightarrow>
     (case err of
        Some m \<Rightarrow> (Inl (Exception m), w3)
      | None \<Rightarrow>
          (Inr ([StrList (map utf8 headers @ [''Output Image Urls''])] # done), w3)))))))"

definition store_new_csv ::
  "collaborators \<Rightarrow> config \<Rightarrow> string \<Rightarrow> world \<Rightarrow> (exn + unit) \<times> world" where
  \<comment> \<open>the \<open>try\<close> body down to \<open>upload_to_s3(csv_buffer, requestId, replace=True)\<close>\<close>
  "store_new_csv lib cfg rid w =
     (case build_new_csv lib cfg rid w of
        (Inl e, w1) \<Rightarrow> (Inl e, w1)
      | (Inr new_csv, w1) \<Rightarrow> upload_to_s3_replace lib cfg (csv_writer lib new_csv) rid w1)"

definition process_body ::
  "collaborators \<Rightarrow> config \<Rightarrow> string \<Rightarrow> world \<Rightarrow> (exn + unit) \<times> world" where
  \<comment> \<open>the whole \<open>try\<close> body\<close>
  "process_body lib cfg rid w =
     (case store_new_csv lib cfg rid w of
        (Inl e, w1) \<Rightarrow> (Inl e, w1)
      | (Inr _, w1) \<Rightarrow>
          write_to_db lib \<lparr>requestId = rid, status = ''Processing completed successfully!''\<rparr> w1)"

definition failed_status :: "collaborators \<Rightarrow> exn \<Rightarrow> string" where
  "failed_status lib e = ''Processing failed due to '' @ str_exn lib e @ ''!''"

definition process_file ::
  "collaborators \<Rightarrow> config \<Rightarrow> string \<Rightarrow> world \<Rightarrow> (exn + unit) \<times> world" where
  \<comment> \<open>\<open>Inl\<close>: the exception that leaves \<open>process_file\<close>\<close>
  "process_file lib cfg rid w =
     (case process_body lib cfg rid w of
        (Inr _, w1) \<Rightarrow> (Inr (), w1)
      | (Inl e, w1) \<Rightarrow> write_to_db lib \<lparr>requestId = rid, status = failed_status lib e\<rparr> w1)"

section \<open>The validator and the upload\<close>

definition isdigit_char :: "collaborators \<Rightarrow> cp \<Rightarrow> bool" where
  \<comment> \<open>the characters \<open>c\<close> with \<open>c.isdigit()\<close>: below 256 they are 0..9 and the superscripts
      two, three and one\<close>
  "isdigit_char lib c =
     (case c of
        Latin a \<Rightarrow> a \<in> set (''0123456789'' @ [CHR 0xB2, CHR 0xB3, CHR 0xB9])
      | Wide n \<Rightarrow> wide_digit lib n)"

definition isdigit :: "collaborators \<Rightarrow> ustring \<Rightarrow> bool" where
  \<comment> \<open>\<open>s.isdigit()\<close>: every character is a digit and there is at least one.\<close>
  "isdigit lib s = (s \<noteq> [] \<and> list_all (isdigit_char lib) s)"

definition validate_row :: "collaborators \<Rightarrow> ustring list \<Rightarrow> exn + unit" where
  \<comment> \<open>the body of the row loop of \<open>validate_csv\<close>; the unpacking
      \<open>sno, product_name, image_urls = row\<close> raises ValueError on more than three fields\<close>
  "validate_row lib row =
     (if length row < 3
      then Inl (HTTPException 400 (''Row has insufficient columns: '' @ repr_list lib row))
      else
        (case row of
           [sno, product_name, image_urls] \<Rightarrow>
             (if \<not> isdigit lib sno
              then Inl (HTTPException 400 (''Invalid S.No. (not a number): '' @ utf8 sno))
              else if \<not> is_alphanumeric_with_spaces product_name
              then Inl (HTTPException 400 (''Invalid product name (not alphanumeric): ''
                          @ utf8 product_name @ '' at S.No.: '' @ utf8 sno))
              else if \<not> list_all (\<lambda>url. is_valid_image_url (strip url)) (split_comma image_urls)
              then Inl (HTTPException 400 (''Invalid Image Urls in list: ''
                          @ utf8 image_urls @ '' at S.No.: '' @ utf8 sno))
              else Inr ())
         | _ \<Rightarrow> Inl (Exception ''too many values to unpack (expected 3)'')))"

fun validate_rows :: "collaborators \<Rightarrow> ustring list list \<Rightarrow> exn + unit" where
  "validate_rows lib [] = Inr ()"
| "validate_rows lib (row # rows) =
     (case validate_row lib row of
        Inl e \<Rightarrow> Inl e
      | Inr _ \<Rightarrow> validate_rows lib rows)"

definition validate_csv :: "collaborators \<Rightarrow> config \<Rightarrow> string \<Rightarrow> exn + unit" where
  \<comment> \<open>the first reader is run to its end by the count, so an error of the reader is raised
      there; the second reader yields the same rows, and \<open>next\<close> takes the first.\<close>
  "validate_csv lib cfg file_content =
     (case decode_utf8 lib file_content of
        Inl m \<Rightarrow> Inl (Exception m)
      | Inr text \<Rightarrow>
          (case csv_reader lib text of
             (rows, Some m) \<Rightarrow> Inl (Exception m)
           | (rows, None) \<Rightarrow>
               (if length rows \<le> 1 then Inl (HTTPException 400 ''CSV file is empty'')
                else
                  (case rows of
                     [] \<Rightarrow> Inl (Exception [])
                   | headers # data \<Rightarrow>
                       (if headers \<noteq> VALID_HEADERS cfg
                        then Inl (HTTPException 400
                               (''CSV file headers are invalid. Allowed headers are ''
                                  @ repr_list lib (VALID_HEADERS cfg)))
                        else validate_rows lib data)))))"

definition upload_csv ::
  "collaborators \<Rightarrow> config \<Rightarrow> upload_file \<Rightarrow> world \<Rightarrow> (exn + string \<times> string) \<times> world" where
  \<comment> \<open>\<open>Inr (message, requestId)\<close> is the response of a successful upload\<close>
  "upload_csv lib cfg file w =
     (if content_type file \<noteq> ''text/csv''
      then (Inl (HTTPException 400 ''Only CSV files are allowed''), w)
      else if int (length (content file)) > MAX_FILE_SIZE cfg
      then (Inl (HTTPException 400 ''File size exceeds the 2 MB limit!''), w)
      else
        (case validate_csv lib cfg (content file) of
           Inl (HTTPException c d) \<Rightarrow> (Inl (HTTPException c d), w)
         | Inl (Exception m) \<Rightarrow>
             (Inl (HTTPException 500 (''CSV parsing failed with exception: '' @ m)), w)
         | Inr _ \<Rightarrow>
             (let rid = remove_dashes (uuid4 lib (uuids w));
                  w1 = w\<lparr>uuids := uuids w + 1\<rparr>
              in (case upload_to_s3 lib cfg file rid w1 of
                    (Inl e, w2) \<Rightarrow> (Inl e, w2)
                  | (Inr _, w2) \<Rightarrow>
                      (case write_to_db lib \<lparr>requestId = rid, status = ''Processing Pending''\<rparr> w2 of
                         (Inl e, w3) \<Rightarrow> (Inl e, w3)
                       | (Inr _, w3) \<Rightarrow>
                           (Inr (''File uploaded successfully!'', rid),
                            w3\<lparr>background_tasks := background_tasks w3 @ [rid]\<rparr>))))))"

section \<open>A concrete configuration and concrete collaborators\<close>

text \<open>
  One configuration and one family of collaborators, on which the theorems below are
  instantiated. They stand in for the libraries on the texts used here: ASCII documents
  with lines ended by a line feed, fields in double quotes where they hold a comma, and
  texts without quotes or backslashes in a printed list.
\<close>

definition cfg0 :: config where
  "cfg0 = \<lparr>AWS_REGION = ''eu-west-1'', AWS_BUCKET_NAME = ''csv-bucket'',
          AWS_IMAGE_BUCKET = ''image-bucket'',
          VALID_HEADERS = map ustr [''sno'', ''product_name'', ''image_urls''],
          MAX_FILE_SIZE = 2097152, IMAGE_QUALITY = 50\<rparr>"

fun csv_scan :: "bool \<Rightarrow> string \<Rightarrow> string list \<Rightarrow> string \<Rightarrow> string list list" where
  \<comment> \<open>the rows of a text: whether inside double quotes, the field so far and the row so far,
      both in reverse, and the rest of the text. Inside double quotes two double quotes
      are one. A line with nothing on it is the empty row.\<close>
  "csv_scan q field row [] =
     (if field = [] \<and> row = [] then [] else [rev (rev field # row)])"
| "csv_scan q field row (c # cs) =
     (if q then (if c = CHR 0x22
                 then (case cs of
                         d # ds \<Rightarrow> if d = CHR 0x22 then csv_scan True (d # field) row ds
                                   else csv_scan False field row cs
                       | [] \<Rightarrow> csv_scan False field row cs)
                 else csv_scan True (c # field) row cs)
      else if c = CHR 0x22 then csv_scan True field row cs
      else if c = CHR '','' then csv_scan False [] (rev field # row) cs
      else if c = CHR 0x0A
      then (if field = [] \<and> row = [] then [] else rev (rev field # row))
             # csv_scan False [] [] cs
      else if c = CHR 0x0D then csv_scan False field row cs
      else csv_scan False (c # field) row cs)"

definition simple_reader :: "string \<Rightarrow> ustring list list \<times> string option" where
  "simple_reader decoded = (map (map ustr) (csv_scan False [] [] decoded), None)"

fun join_with :: "string \<Rightarrow> string list \<Rightarrow> string" where
  "join_with sep [] = []"
| "join_with sep [x] = x"
| "join_with sep (x # y # ys) = x @ sep @ join_with sep (y # ys)"

definition py_list :: "string list \<Rightarrow> string" where
  \<comment> \<open>\<open>str(l)\<close> of a list of texts\<close>
  "py_list l = ''['' @ join_with '', '' (map (\<lambda>s. [CHR 0x27] @ s @ [CHR 0x27]) l) @ '']''"

definition csv_field :: "string \<Rightarrow> string" where
  \<comment> \<open>a field as the writer writes it: in double quotes when it holds a comma, a quote or a
      line end\<close>
  "csv_field s =
     (if list_ex (\<lambda>c. c \<in> set [CHR '','', CHR 0x22, CHR 0x0D, CHR 0x0A]) s
      then [CHR 0x22] @ concat (map (\<lambda>c. if c = CHR 0x22 then [c, c] else [c]) s) @ [CHR 0x22]
      else s)"

definition simple_writer :: "cell list list \<Rightarrow> string" where
  "simple_writer rows =
     concat (map (\<lambda>row. join_with '',''
                           (map (\<lambda>c. csv_field (case c of Str s \<Rightarrow> utf8 s
                                                   | StrList l \<Rightarrow> py_list l)) row)
                          @ [CHR 0x0D, CHR 0x0A]) rows)"

definition lib0 :: collaborators where
  "lib0 = \<lparr>fault = (\<lambda>n. None),
          http_get = (\<lambda>url. if url = ustr ''http://example.com/a.jpg'' then Inr ''jpeg-bytes''
                            else if url = ustr ''http://example.com/b.png'' then Inr ''png-bytes''
                            else if url = ustr ''http://example.com/c.gif'' then Inr ''gif-bytes''
                            else Inl ''404 Client Error: Not Found for url''),
          image_open = (\<lambda>b. if b = ''jpeg-bytes'' then Inr \<lparr>format = ''JPEG'', pixels = b\<rparr>
                              else if b = ''png-bytes'' then Inr \<lparr>format = ''PNG'', pixels = b\<rparr>
                              else if b = ''gif-bytes'' then Inr \<lparr>format = ''GIF'', pixels = b\<rparr>
                              else Inl ''cannot identify image file''),
          image_save = (\<lambda>img args. Inr (save_format args @ '':'' @ pixels img)),
          decode_utf8 = Inr,
          csv_reader = simple_reader,
          csv_writer = simple_writer,
          uuid4 = (\<lambda>n. replicate (Suc n) CHR ''a'' @ ''-0000''),
          str_http = (\<lambda>c d. (if c = 404 then ''404'' else if c = 400 then ''400'' else ''500'')
                             @ '': '' @ d),
          repr_list = (\<lambda>l. py_list (map utf8 l)),
          wide_digit = (\<lambda>n. 0x660 \<le> 256 + n \<and> 256 + n \<le> 0x669)\<rparr>"

definition world0 :: world where
  "world0 = \<lparr>table = Map.empty, s3 = Map.empty, aws_calls = 0, uuids = 0,
            background_tasks = []\<rparr>"

definition csv1 :: string where
  \<comment> \<open>the header and the row \<open>1,Widget A,http://example.com/a.jpg\<close>\<close>
  "csv1 = ''sno,product_name,image_urls'' @ [CHR 0x0A]
          @ ''1,Widget A,http://example.com/a.jpg'' @ [CHR 0x0A]"

definition file1 :: upload_file where
  "file1 = \<lparr>content_type = ''text/csv'', filename = ''products.csv'', content = csv1\<rparr>"

definition world1 :: world where
  \<comment> \<open>the stores after the upload of \<open>file1\<close> as job \<open>a0000\<close>\<close>
  "world1 = snd (upload_csv lib0 cfg0 file1 world0)"

definition cfg_exact :: config where
  \<comment> \<open>\<open>cfg0\<close> with the size of \<open>csv1\<close> as the maximum\<close>
  "cfg_exact = cfg0\<lparr>MAX_FILE_SIZE := 64\<rparr>"

definition file1_over :: upload_file where
  \<comment> \<open>\<open>file1\<close> and one byte\<close>
  "file1_over = file1\<lparr>content := csv1 @ [CHR 0x0A]\<rparr>"

definition csv_file :: "string \<Rightarrow> upload_file" where
  "csv_file c = \<lparr>content_type = ''text/csv'', filename = ''products.csv'', content = c\<rparr>"

definition csv2 :: string where
  \<comment> \<open>the header, a row with two URLs in its third field and a row with one\<close>
  "csv2 = ''sno,product_name,image_urls'' @ [CHR 0x0A]
          @ ''1,Widget A,'' @ [CHR 0x22]
          @ ''http://example.com/a.jpg,http://example.com/b.png'' @ [CHR 0x22, CHR 0x0A]
          @ ''2,Widget B,http://example.com/c.gif'' @ [CHR 0x0A]"

definition world_two :: world where
  \<comment> \<open>the stores after the upload of \<open>csv2\<close> as job \<open>a0000\<close>\<close>
  "world_two = snd (upload_csv lib0 cfg0 (csv_file csv2) world0)"

definition world2 :: world where
  \<comment> \<open>the stores after the \<open>try\<close> body of the run of that job\<close>
  "world2 = snd (process_body lib0 cfg0 ''a0000'' world_two)"





definition lib_fault :: "nat \<Rightarrow> collaborators" where
  \<comment> \<open>\<open>lib0\<close>, but the AWS call of number \<open>k\<close> fails\<close>
  "lib_fault k = lib0\<lparr>fault := (\<lambda>n. if n = k then Some ''service unavailable'' else None)\<rparr>"

definition lib_down :: collaborators where
  \<comment> \<open>\<open>lib0\<close>, but every AWS call fails\<close>
  "lib_down = lib0\<lparr>fault := (\<lambda>n. Some ''service unavailable'')\<rparr>"

definition world_unwritten :: world where
  \<comment> \<open>the stores when the run of job \<open>a0000\<close> fails to read the document\<close>
  "world_unwritten = snd (process_body (lib_fault 3) cfg0 ''a0000'' world1)"

definition csv_header_only :: string where
  \<comment> \<open>one row, the configured column names in another order\<close>
  "csv_header_only = ''product_name,sno,image_urls'' @ [CHR 0x0A]"

definition csv_reordered :: string where
  \<comment> \<open>the reordered header and one data row\<close>
  "csv_reordered = ''product_name,sno,image_urls'' @ [CHR 0x0A]
                   @ ''Widget A,1,http://example.com/a.jpg'' @ [CHR 0x0A]"

definition csv_wide :: string where
  \<comment> \<open>the configured header, a valid data row and a data row of four fields\<close>
  "csv_wide = ''sno,product_name,image_urls'' @ [CHR 0x0A]
              @ ''1,Widget A,http://example.com/a.jpg'' @ [CHR 0x0A]
              @ ''2,Widget B,http://example.com/b.png,extra'' @ [CHR 0x0A]"

definition csv_bad_then_wide :: string where
  \<comment> \<open>the configured header, a data row whose first field is no number, and a data row of
      four fields\<close>
  "csv_bad_then_wide = ''sno,product_name,image_urls'' @ [CHR 0x0A]
              @ ''x,Widget A,http://example.com/a.jpg'' @ [CHR 0x0A]
              @ ''2,Widget B,http://example.com/b.png,extra'' @ [CHR 0x0A]"

definition csv_reordered_wide :: string where
  \<comment> \<open>the reordered header and a data row of four fields\<close>
  "csv_reordered_wide = ''product_name,sno,image_urls'' @ [CHR 0x0A]
              @ ''2,Widget B,http://example.com/b.png,extra'' @ [CHR 0x0A]"

definition url_long_s :: ustring where
  \<comment> \<open>\<open>http\<close>, U+017F, \<open>://ab.g\<close>, U+0131, \<open>f\<close>: a long s for the \<open>s\<close> of \<open>https\<close>, a dotless
      i for the \<open>i\<close> of \<open>gif\<close>\<close>
  "url_long_s = ustr ''http'' @ [wide 0x17F] @ ustr ''://ab.g'' @ [wide 0x131] @ ustr ''f''"

section \<open>Conditions used in the statements\<close>


definition calls_in_order ::
  "collaborators \<Rightarrow> config \<Rightarrow> ustring list \<Rightarrow> string list \<Rightarrow> world \<Rightarrow> world \<Rightarrow> bool" where
  \<comment> \<open>\<open>compress_image\<close> is called once for each URL of the list, from the first to the
      last, the first call in the stores \<open>w\<close>, each later call in the stores the call before
      it left, the last leaving \<open>w'\<close>; each call returns, and the \<open>k\<close>-th text of \<open>us\<close> is what
      the call for the \<open>k\<close>-th URL returned\<close>
  "calls_in_order lib cfg urls us w w' =
     (\<exists>ws. length ws = Suc (length urls) \<and> hd ws = w \<and> last ws = w' \<and>
           length us = length urls \<and>
           (\<forall>k < length urls.
              compress_image lib cfg (urls ! k) (ws ! k) = (Inr (us ! k), ws ! Suc k)))"

definition spec_image_url :: "ustring \<Rightarrow> bool" where
  \<comment> \<open>the condition of the specification on one trimmed entry, in its words: scheme
      \<open>http\<close> or \<open>https\<close>, a non-empty host/path with no whitespace, ending in one of
      \<open>.jpg .jpeg .png .gif\<close> compared case-insensitively\<close>
  "spec_image_url url =
     (\<exists>scheme \<in> set [''http'', ''https''].
        take (length scheme + 3) url = ustr (scheme @ ''://'') \<and>
        (let rest = drop (length scheme + 3) url
         in rest \<noteq> [] \<and> list_all (\<lambda>c. \<not> isspace c) rest \<and>
            (\<exists>ext \<in> set [''.jpg'', ''.jpeg'', ''.png'', ''.gif''].
               length ext \<le> length rest \<and>
               caseless (drop (length rest - length ext) rest) ext)))"

section \<open>The matcher decides the language of a pattern\<close>

lemma nullable_lang: "nullable r \<longleftrightarrow> [] \<in> lang r"
  by (induction r) (auto simp: conc_def intro: star.star_nil)

lemma conc_Cons:
  "c # s \<in> conc A B \<longleftrightarrow> (\<exists>xs ys. s = xs @ ys \<and> c # xs \<in> A \<and> ys \<in> B) \<or> ([] \<in> A \<and> c # s \<in> B)"
proof
  assume "c # s \<in> conc A B"
  then obtain xs ys where d: "c # s = xs @ ys" "xs \<in> A" "ys \<in> B"
    by (auto simp: conc_def)
  show "(\<exists>xs ys. s = xs @ ys \<and> c # xs \<in> A \<and> ys \<in> B) \<or> ([] \<in> A \<and> c # s \<in> B)"
  proof (cases xs)
    case Nil
    with d show ?thesis by simp
  next
    case (Cons x xs')
    with d show ?thesis by auto
  qed
next
  assume "(\<exists>xs ys. s = xs @ ys \<and> c # xs \<in> A \<and> ys \<in> B) \<or> ([] \<in> A \<and> c # s \<in> B)"
  then show "c # s \<in> conc A B"
  proof
    assume "\<exists>xs ys. s = xs @ ys \<and> c # xs \<in> A \<and> ys \<in> B"
    then obtain xs ys where "s = xs @ ys" "c # xs \<in> A" "ys \<in> B" by blast
    then have "(c # xs) @ ys \<in> conc A B" unfolding conc_def by blast
    with \<open>s = xs @ ys\<close> show ?thesis by simp
  next
    assume "[] \<in> A \<and> c # s \<in> B"
    then have "[] @ (c # s) \<in> conc A B" unfolding conc_def by blast
    then show ?thesis by simp
  qed
qed

lemma star_Cons_split:
  "w \<in> star A \<Longrightarrow> w = c # s \<Longrightarrow> \<exists>xs ys. s = xs @ ys \<and> c # xs \<in> A \<and> ys \<in> star A"
proof (induction arbitrary: s rule: star.induct)
  case star_nil
  then show ?case by simp
next
  case (star_app xs ys)
  show ?case
  proof (cases xs)
    case Nil
    with star_app show ?thesis by simp
  next
    case (Cons x xs')
    with star_app show ?thesis by auto
  qed
qed

lemma star_Cons:
  "c # s \<in> star A \<longleftrightarrow> (\<exists>xs ys. s = xs @ ys \<and> c # xs \<in> A \<and> ys \<in> star A)"
proof
  assume "c # s \<in> star A"
  then show "\<exists>xs ys. s = xs @ ys \<and> c # xs \<in> A \<and> ys \<in> star A"
    by (rule star_Cons_split) simp
next
  assume "\<exists>xs ys. s = xs @ ys \<and> c # xs \<in> A \<and> ys \<in> star A"
  then obtain xs ys where "s = xs @ ys" "c # xs \<in> A" "ys \<in> star A" by blast
  then have "(c # xs) @ ys \<in> star A" by (blast intro: star.star_app)
  with \<open>s = xs @ ys\<close> show "c # s \<in> star A" by simp
qed

lemma lang_deriv: "s \<in> lang (deriv c r) \<longleftrightarrow> c # s \<in> lang r"
proof (induction r arbitrary: s)
  case (Seq r1 r2)
  have "s \<in> conc (lang (deriv c r1)) (lang r2) \<longleftrightarrow>
        (\<exists>xs ys. s = xs @ ys \<and> c # xs \<in> lang r1 \<and> ys \<in> lang r2)"
    using Seq.IH(1) by (auto simp: conc_def)
  then show ?case
    using Seq.IH(2) by (auto simp: conc_Cons nullable_lang)
next
  case (Star r)
  have "s \<in> conc (lang (deriv c r)) (star (lang r)) \<longleftrightarrow>
        (\<exists>xs ys. s = xs @ ys \<and> c # xs \<in> lang r \<and> ys \<in> star (lang r))"
    using Star.IH by (auto simp: conc_def)
  then show ?case by (simp add: star_Cons)
qed auto

lemma re_full_lang: "re_full r s \<longleftrightarrow> s \<in> lang r"
  by (induction s arbitrary: r) (simp_all add: nullable_lang lang_deriv)

lemma re_full_Zero: "re_full Zero s = False"
  by (simp add: re_full_lang)

lemma re_full_Alt: "re_full (Alt r1 r2) s = (re_full r1 s \<or> re_full r2 s)"
  by (simp add: re_full_lang)

lemma re_full_Seq_Zero: "re_full (Seq Zero r) s = False"
  by (simp add: re_full_lang conc_def)

lemma re_full_Seq_Eps: "re_full (Seq Eps r) s = re_full r s"
  by (simp add: re_full_lang conc_def)

lemma conc_assoc: "conc (conc A B) C = conc A (conc B C)"
proof (rule set_eqI)
  fix w
  show "w \<in> conc (conc A B) C \<longleftrightarrow> w \<in> conc A (conc B C)"
  proof
    assume "w \<in> conc (conc A B) C"
    then obtain x y z where "w = (x @ y) @ z" "x \<in> A" "y \<in> B" "z \<in> C"
      unfolding conc_def by blast
    then have "w = x @ (y @ z)" "x \<in> A" "y @ z \<in> conc B C"
      unfolding conc_def by auto
    then show "w \<in> conc A (conc B C)"
      unfolding conc_def by blast
  next
    assume "w \<in> conc A (conc B C)"
    then obtain x y z where "w = x @ (y @ z)" "x \<in> A" "y \<in> B" "z \<in> C"
      unfolding conc_def by blast
    then have "w = (x @ y) @ z" "x @ y \<in> conc A B" "z \<in> C"
      unfolding conc_def by auto
    then show "w \<in> conc (conc A B) C"
      unfolding conc_def by blast
  qed
qed

lemma re_full_Seq_Alt:
  "re_full (Seq (Alt r1 r2) r) s = (re_full (Seq r1 r) s \<or> re_full (Seq r2 r) s)"
  by (auto simp: re_full_lang conc_def)

lemma re_full_Seq_Seq: "re_full (Seq (Seq r1 r2) r) s = re_full (Seq r1 (Seq r2 r)) s"
  by (simp add: re_full_lang conc_assoc)

lemmas re_eval = re_full_Zero re_full_Alt re_full_Seq_Zero re_full_Seq_Eps
  re_full_Seq_Alt re_full_Seq_Seq

lemma ignorecase_letters:
  "ignorecase CHR ''h'' = [Latin CHR ''h'', Latin CHR ''H'']"
  "ignorecase CHR ''t'' = [Latin CHR ''t'', Latin CHR ''T'']"
  "ignorecase CHR ''p'' = [Latin CHR ''p'', Latin CHR ''P'']"
  "ignorecase CHR ''s'' = [Latin CHR ''s'', Latin CHR ''S'', Wide 127]"
  "ignorecase CHR ''j'' = [Latin CHR ''j'', Latin CHR ''J'']"
  "ignorecase CHR ''g'' = [Latin CHR ''g'', Latin CHR ''G'']"
  "ignorecase CHR ''e'' = [Latin CHR ''e'', Latin CHR ''E'']"
  "ignorecase CHR ''n'' = [Latin CHR ''n'', Latin CHR ''N'']"
  "ignorecase CHR ''i'' = [Latin CHR ''i'', Latin CHR ''I'', Wide 48, Wide 49]"
  "ignorecase CHR ''f'' = [Latin CHR ''f'', Latin CHR ''F'']"
  "ignorecase CHR ''.'' = [Latin CHR ''.'']"
  by (simp_all add: ignorecase_def lower_table_def wide_def)

lemma lang_str_rx: "lang (str_rx w) = {ustr w}"
  by (induction w) (auto simp: conc_def chr_rx_def ustr_def)

lemma lang_istr_rx: "lang (istr_rx w) = {x. caseless x w}"
proof (induction w)
  case Nil
  then show ?case by (simp add: caseless_def)
next
  case (Cons a w)
  have "conc {[c] |c. c \<in> set (ignorecase a)} {x. caseless x w} = {x. caseless x (a # w)}"
    (is "?L = ?R")
  proof (rule set_eqI)
    fix x
    show "x \<in> ?L \<longleftrightarrow> x \<in> ?R"
    proof
      assume "x \<in> ?L"
      then obtain c ys where "x = [c] @ ys" "c \<in> set (ignorecase a)" "caseless ys w"
        unfolding conc_def by blast
      then show "x \<in> ?R" by (simp add: caseless_def)
    next
      assume "x \<in> ?R"
      then obtain c ys where "x = c # ys" "c \<in> set (ignorecase a)" "caseless ys w"
        by (auto simp: caseless_def list_all2_Cons2)
      then have "x = [c] @ ys" "[c] \<in> {[c] |c. c \<in> set (ignorecase a)}"
        "ys \<in> {x. caseless x w}"
        by auto
      then show "x \<in> ?L" unfolding conc_def by blast
    qed
  qed
  with Cons show ?case by (simp add: ichr_rx_def)
qed

lemma star_Cls_sub: "x \<in> star {[c] |c. P c} \<Longrightarrow> list_all P x"
  by (induction rule: star.induct) auto

lemma star_Cls_sup: "list_all P x \<Longrightarrow> x \<in> star {[c] |c. P c}"
proof (induction x)
  case Nil
  show ?case by (rule star.star_nil)
next
  case (Cons c x)
  then have "[c] \<in> {[c] |c. P c}" "x \<in> star {[c] |c. P c}" by auto
  then have "[c] @ x \<in> star {[c] |c. P c}" by (rule star.star_app)
  then show ?case by simp
qed

lemma star_Cls: "star {[c] |c. P c} = {x. list_all P x}"
  using star_Cls_sub star_Cls_sup by blast


lemma re_full_SeqI: "re_full r1 x \<Longrightarrow> re_full r2 y \<Longrightarrow> re_full (Seq r1 r2) (x @ y)"
  unfolding re_full_lang lang.simps conc_def by blast

lemma re_full_SeqE:
  assumes "re_full (Seq r1 r2) w"
  obtains x y where "w = x @ y" "re_full r1 x" "re_full r2 y"
  using assms unfolding re_full_lang lang.simps conc_def by blast

lemma re_full_Cls: "re_full (Cls P) x \<longleftrightarrow> (\<exists>c. x = [c] \<and> P c)"
  unfolding re_full_lang lang.simps by blast

lemma re_full_str: "re_full (str_rx u) x \<longleftrightarrow> x = ustr u"
  unfolding re_full_lang lang_str_rx by simp

lemma re_full_Star_Cls: "re_full (Star (Cls P)) x \<longleftrightarrow> list_all P x"
  unfolding re_full_lang lang.simps star_Cls by simp

lemma re_full_istr: "re_full (istr_rx u) x \<longleftrightarrow> caseless x u"
  by (simp add: re_full_lang lang_istr_rx)

lemma url_pattern_lang:
  "re_full url_pattern s \<longleftrightarrow>
     (\<exists>scheme c1 c2 mid ext.
        s = scheme @ ustr ''://'' @ [c1, c2] @ mid @ ustr ''.'' @ ext
        \<and> (caseless scheme ''http'' \<or> caseless scheme ''https'')
        \<and> url_first c1 \<and> not_newline c2 \<and> list_all not_space mid
        \<and> (caseless ext ''jpg'' \<or> caseless ext ''jpeg'' \<or> caseless ext ''png'' \<or> caseless ext ''gif''))"
  (is "?match \<longleftrightarrow> ?shape")
proof -
  let ?S = "Alt (istr_rx ''http'') (istr_rx ''https'')"
  let ?E = "Alt (istr_rx ''jpg'') (Alt (istr_rx ''jpeg'') (Alt (istr_rx ''png'') (istr_rx ''gif'')))"
  let ?R5 = "Seq (Cls (\<lambda>c. c = Latin CHR ''.'')) ?E"
  let ?R4 = "Seq (Star (Cls not_space)) ?R5"
  let ?R3 = "Seq (Cls not_newline) ?R4"
  let ?R2 = "Seq (Cls url_first) ?R3"
  let ?R1 = "Seq (str_rx ''://'') ?R2"
  have pat: "url_pattern = Seq ?S ?R1"
    by (simp only: url_pattern_def chr_rx_def)
  have scheme: "re_full ?S x \<longleftrightarrow> (caseless x ''http'' \<or> caseless x ''https'')" for x
    by (simp only: re_full_Alt re_full_istr)
  have ext: "re_full ?E x \<longleftrightarrow> (caseless x ''jpg'' \<or> caseless x ''jpeg'' \<or> caseless x ''png'' \<or> caseless x ''gif'')" for x
    by (simp only: re_full_Alt re_full_istr)
  show ?thesis
  proof
    assume ?match
    then have "re_full (Seq ?S ?R1) s" by (simp only: pat)
    then obtain sch y where 1: "s = sch @ y" "re_full ?S sch" "re_full ?R1 y"
      by (rule re_full_SeqE)
    from 1(3) obtain u y1 where 2: "y = u @ y1" "re_full (str_rx ''://'') u" "re_full ?R2 y1"
      by (rule re_full_SeqE)
    from 2(3) obtain a1 y2 where 3: "y1 = a1 @ y2" "re_full (Cls url_first) a1" "re_full ?R3 y2"
      by (rule re_full_SeqE)
    from 3(3) obtain a2 y3 where 4: "y2 = a2 @ y3" "re_full (Cls not_newline) a2" "re_full ?R4 y3"
      by (rule re_full_SeqE)
    from 4(3) obtain mid y4 where 5: "y3 = mid @ y4" "re_full (Star (Cls not_space)) mid" "re_full ?R5 y4"
      by (rule re_full_SeqE)
    from 5(3) obtain d e where 6: "y4 = d @ e" "re_full (Cls (\<lambda>c. c = Latin CHR ''.'')) d" "re_full ?E e"
      by (rule re_full_SeqE)
    from 2(2) have u: "u = ustr ''://''" by (simp only: re_full_str)
    from 3(2) obtain c1 where c1: "a1 = [c1]" "url_first c1" unfolding re_full_Cls by (elim exE conjE)
    from 4(2) obtain c2 where c2: "a2 = [c2]" "not_newline c2" unfolding re_full_Cls by (elim exE conjE)
    from 6(2) have d: "d = ustr ''.''" unfolding re_full_Cls by (elim exE conjE) (simp add: ustr_def)
    from 5(2) have mid: "list_all not_space mid" by (simp only: re_full_Star_Cls)
    have "s = sch @ ustr ''://'' @ [c1, c2] @ mid @ ustr ''.'' @ e"
      unfolding 1(1) 2(1) 3(1) 4(1) 5(1) 6(1) u c1(1) c2(1) d by simp
    moreover have "(caseless sch ''http'' \<or> caseless sch ''https'')" using 1(2) by (simp only: scheme)
    moreover have "(caseless e ''jpg'' \<or> caseless e ''jpeg'' \<or> caseless e ''png'' \<or> caseless e ''gif'')" using 6(3) by (simp only: ext)
    ultimately show ?shape using c1(2) c2(2) mid by (intro exI conjI)
  next
    assume ?shape
    then obtain sch c1 c2 mid e where
      s: "s = sch @ ustr ''://'' @ [c1, c2] @ mid @ ustr ''.'' @ e" and
      sch: "(caseless sch ''http'' \<or> caseless sch ''https'')" and c1: "url_first c1" and c2: "not_newline c2" and
      mid: "list_all not_space mid" and e: "(caseless e ''jpg'' \<or> caseless e ''jpeg'' \<or> caseless e ''png'' \<or> caseless e ''gif'')"
      by (elim exE conjE)
    have "re_full ?E e" using e by (simp only: ext)
    moreover have "re_full (Cls (\<lambda>c. c = Latin CHR ''.'')) (ustr ''.'')"
      unfolding re_full_Cls by (simp add: ustr_def)
    ultimately have "re_full ?R5 (ustr ''.'' @ e)" by (rule re_full_SeqI [rotated])
    moreover have "re_full (Star (Cls not_space)) mid" using mid by (simp only: re_full_Star_Cls)
    ultimately have "re_full ?R4 (mid @ ustr ''.'' @ e)" by (rule re_full_SeqI [rotated])
    moreover have "re_full (Cls not_newline) [c2]" unfolding re_full_Cls using c2 by simp
    ultimately have "re_full ?R3 ([c2] @ mid @ ustr ''.'' @ e)" by (rule re_full_SeqI [rotated])
    moreover have "re_full (Cls url_first) [c1]" unfolding re_full_Cls using c1 by simp
    ultimately have "re_full ?R2 ([c1] @ [c2] @ mid @ ustr ''.'' @ e)" by (rule re_full_SeqI [rotated])
    moreover have "re_full (str_rx ''://'') (ustr ''://'')" by (simp only: re_full_str)
    ultimately have "re_full ?R1 (ustr ''://'' @ [c1] @ [c2] @ mid @ ustr ''.'' @ e)"
      by (rule re_full_SeqI [rotated])
    moreover have "re_full ?S sch" using sch by (simp only: scheme)
    ultimately have "re_full (Seq ?S ?R1) (sch @ ustr ''://'' @ [c1] @ [c2] @ mid @ ustr ''.'' @ e)"
      by (rule re_full_SeqI [rotated])
    then show ?match unfolding pat s by simp
  qed
qed

section \<open>Evaluation on the concrete collaborators\<close>

lemmas re_run = url_pattern_def chr_rx_def ichr_rx_def ignorecase_letters not_space_def
  url_first_def not_newline_def isspace_def wide_def ustr_def re_eval

lemmas store_run = write_to_db_def upload_to_s3_def upload_to_s3_replace_def
  upload_image_to_s3_def read_from_s3_def tick_def csv_key_def remove_dashes_def Let_def

lemma utf8_ascii [simp]: "\<not> digit7 c \<Longrightarrow> utf8 (Latin c # s) = c # utf8 s"
  by (simp add: utf8_def)

lemma utf8_Nil [simp]: "utf8 [] = []"
  by (simp add: utf8_def)

lemma utf8_ustr: "list_all (\<lambda>c. \<not> digit7 c) s \<Longrightarrow> utf8 (ustr s) = s"
  by (induction s) (simp_all add: ustr_def)

lemma lib0_simps:
  "fault lib0 n = None"
  "http_get lib0 (ustr ''http://example.com/a.jpg'') = Inr ''jpeg-bytes''"
  "http_get lib0 (ustr ''http://example.com/b.png'') = Inr ''png-bytes''"
  "http_get lib0 (ustr ''http://example.com/c.gif'') = Inr ''gif-bytes''"
  "http_get lib0 (ustr ''http://example.com/gone.jpg'') = Inl ''404 Client Error: Not Found for url''"
  "image_open lib0 ''jpeg-bytes'' = Inr \<lparr>format = ''JPEG'', pixels = ''jpeg-bytes''\<rparr>"
  "image_open lib0 ''png-bytes'' = Inr \<lparr>format = ''PNG'', pixels = ''png-bytes''\<rparr>"
  "image_open lib0 ''gif-bytes'' = Inr \<lparr>format = ''GIF'', pixels = ''gif-bytes''\<rparr>"
  "image_save lib0 img args = Inr (save_format args @ '':'' @ pixels img)"
  "decode_utf8 lib0 = Inr"
  "csv_reader lib0 = simple_reader"
  "csv_writer lib0 = simple_writer"
  "uuid4 lib0 n = replicate (Suc n) CHR ''a'' @ ''-0000''"
  "str_http lib0 c d =
     (if c = 404 then ''404'' else if c = 400 then ''400'' else ''500'') @ '': '' @ d"
  "repr_list lib0 l = py_list (map utf8 l)"
  by (simp_all add: lib0_def ustr_def)

lemma cfg0_simps:
  "AWS_REGION cfg0 = ''eu-west-1''" "AWS_BUCKET_NAME cfg0 = ''csv-bucket''"
  "AWS_IMAGE_BUCKET cfg0 = ''image-bucket''"
  "VALID_HEADERS cfg0 = map ustr [''sno'', ''product_name'', ''image_urls'']"
  "MAX_FILE_SIZE cfg0 = 2097152" "IMAGE_QUALITY cfg0 = 50"
  by (simp_all add: cfg0_def)

lemma cfg_exact_simps:
  "AWS_REGION cfg_exact = ''eu-west-1''" "AWS_BUCKET_NAME cfg_exact = ''csv-bucket''"
  "AWS_IMAGE_BUCKET cfg_exact = ''image-bucket''"
  "VALID_HEADERS cfg_exact = map ustr [''sno'', ''product_name'', ''image_urls'']"
  "MAX_FILE_SIZE cfg_exact = 64" "IMAGE_QUALITY cfg_exact = 50"
  by (simp_all add: cfg_exact_def cfg0_def)


lemma file1_simps:
  "content_type file1 = ''text/csv''" "filename file1 = ''products.csv''" "content file1 = csv1"
  "content_type file1_over = ''text/csv''" "content file1_over = csv1 @ [CHR 0x0A]"
  by (simp_all add: file1_def file1_over_def)

lemma csv_file_simps:
  "content_type (csv_file c) = ''text/csv''" "filename (csv_file c) = ''products.csv''"
  "content (csv_file c) = c"
  by (simp_all add: csv_file_def)

lemma world0_simps:
  "table world0 = Map.empty" "s3 world0 = Map.empty" "aws_calls world0 = 0" "uuids world0 = 0"
  "background_tasks world0 = []"
  by (simp_all add: world0_def)

lemma csv1_rows:
  "simple_reader csv1 = ([map ustr [''sno'', ''product_name'', ''image_urls''],
      map ustr [''1'', ''Widget A'', ''http://example.com/a.jpg'']], None)"
  by (simp add: simple_reader_def csv1_def)

lemma csv2_rows:
  "simple_reader csv2 = ([map ustr [''sno'', ''product_name'', ''image_urls''],
      map ustr [''1'', ''Widget A'', ''http://example.com/a.jpg,http://example.com/b.png''],
      map ustr [''2'', ''Widget B'', ''http://example.com/c.gif'']], None)"
  by (simp add: simple_reader_def csv2_def)


lemma length_csv1: "length csv1 = 64"
  by (simp add: csv1_def)

lemma length_csv2: "length csv2 = 127"
  by (simp add: csv2_def)


lemma strip_ascii:
  "strip (ustr ''http://example.com/a.jpg'') = ustr ''http://example.com/a.jpg''"
  "strip (ustr ''http://example.com/b.png'') = ustr ''http://example.com/b.png''"
  "strip (ustr ''http://example.com/c.gif'') = ustr ''http://example.com/c.gif''"
  "strip (ustr ''http://example.com/gone.jpg'') = ustr ''http://example.com/gone.jpg''"
  by (simp_all add: strip_def isspace_def ustr_def wide_def)

lemma urls_valid:
  "is_valid_image_url (ustr ''http://example.com/a.jpg'')"
  "is_valid_image_url (ustr ''http://example.com/b.png'')"
  "is_valid_image_url (ustr ''http://example.com/c.gif'')"
  "is_valid_image_url (ustr ''http://example.com/gone.jpg'')"
  by (simp_all add: is_valid_image_url_def re_match_dollar_def re_run)

lemma split_comma_urls:
  "split_comma (ustr ''http://example.com/a.jpg'') = [ustr ''http://example.com/a.jpg'']"
  "split_comma (ustr ''http://example.com/b.png'') = [ustr ''http://example.com/b.png'']"
  "split_comma (ustr ''http://example.com/c.gif'') = [ustr ''http://example.com/c.gif'']"
  "split_comma (ustr ''http://example.com/a.jpg,http://example.com/b.png'')
     = [ustr ''http://example.com/a.jpg'', ustr ''http://example.com/b.png'']"
  "split_comma (ustr ''http://example.com/a.jpg,http://example.com/gone.jpg'')
     = [ustr ''http://example.com/a.jpg'', ustr ''http://example.com/gone.jpg'']"
  by (simp_all add: split_comma_def ustr_def)

lemmas field_run = isdigit_def isdigit_char_def is_alphanumeric_with_spaces_def
  re_match_dollar_def re_full_Star_Cls alnum_space_def

lemma fields_valid:
  "isdigit lib (ustr ''1'')" "isdigit lib (ustr ''2'')" "\<not> isdigit lib (ustr ''x'')"
  "is_alphanumeric_with_spaces (ustr ''Widget A'')"
  "is_alphanumeric_with_spaces (ustr ''Widget B'')"
  by (simp_all add: field_run ustr_def)

lemma validate_rows_valid:
  "validate_row lib (map ustr [''1'', ''Widget A'', ''http://example.com/a.jpg'']) = Inr ()"
  "validate_row lib (map ustr [''1'', ''Widget A'',
       ''http://example.com/a.jpg,http://example.com/b.png'']) = Inr ()"
  "validate_row lib (map ustr [''2'', ''Widget B'', ''http://example.com/c.gif'']) = Inr ()"
  "validate_row lib (map ustr [''1'', ''Widget A'',
       ''http://example.com/a.jpg,http://example.com/gone.jpg'']) = Inr ()"
  by (simp_all add: validate_row_def fields_valid split_comma_urls strip_ascii urls_valid)

lemma validate_csv1:
  "validate_csv lib0 cfg0 csv1 = Inr ()" "validate_csv lib0 cfg_exact csv1 = Inr ()"
  using validate_rows_valid(1) [of lib0]
  by (simp_all add: validate_csv_def lib0_simps cfg0_simps cfg_exact_simps csv1_rows)

lemma validate_csv2: "validate_csv lib0 cfg0 csv2 = Inr ()"
  using validate_rows_valid(2,3) [of lib0]
  by (simp add: validate_csv_def lib0_simps cfg0_simps csv2_rows)


lemma upload1:
  "upload_csv lib0 cfg0 file1 world0 =
     (Inr (''File uploaded successfully!'', ''a0000''),
      \<lparr>table = [''a0000'' \<mapsto> \<lparr>requestId = ''a0000'', status = ''Processing Pending''\<rparr>],
       s3 = [(''csv-bucket'', ''a0000.csv'') \<mapsto>
               \<lparr>body = csv1,
                metadata = [(''Content-Type'', ''text/csv''),
                            (''x-amz-meta-original-filename'', ''products.csv'')]\<rparr>],
       aws_calls = 2, uuids = 1, background_tasks = [''a0000'']\<rparr>)"
  by (simp add: upload_csv_def validate_csv1 store_run lib0_simps file1_simps world0_def
      cfg0_simps length_csv1)

lemma world1_simps:
  "table world1 ''a0000'' = Some \<lparr>requestId = ''a0000'', status = ''Processing Pending''\<rparr>"
  "s3 world1 (''csv-bucket'', ''a0000.csv'') =
     Some \<lparr>body = csv1, metadata = [(''Content-Type'', ''text/csv''),
                                     (''x-amz-meta-original-filename'', ''products.csv'')]\<rparr>"
  "aws_calls world1 = 2" "uuids world1 = 1"
  by (simp_all add: world1_def upload1)

lemma world_two_simps:
  "s3 world_two (''csv-bucket'', ''a0000.csv'') =
     Some \<lparr>body = csv2, metadata = [(''Content-Type'', ''text/csv''),
                                     (''x-amz-meta-original-filename'', ''products.csv'')]\<rparr>"
  "aws_calls world_two = 2" "uuids world_two = 1"
  by (simp_all add: world_two_def upload_csv_def validate_csv2 store_run lib0_simps
      csv_file_simps world0_def cfg0_simps length_csv2)


lemma lower_formats:
  "lower ''JPEG'' = ''jpeg''" "lower ''PNG'' = ''png''" "lower ''GIF'' = ''gif''"
  by (simp_all add: lower_def lower_char_def lower_table_def)

section \<open>Status codes of the validator and the stores\<close>






section \<open>The size limit of an upload\<close>



section \<open>The encoder arguments of the image transformer\<close>

text \<open>
  C7. For a fetched and decoded image, \<open>compress_image\<close> saves a JPEG (format \<open>JPEG\<close> or
  \<open>JPG\<close>) as JPEG at quality \<open>IMAGE_QUALITY\<close>, a PNG as PNG at compression level
  \<open>IMAGE_QUALITY div 10\<close>, and an image of any other format in that format with no further
  argument; the saved bytes are what it uploads.
\<close>

theorem compress_image_encoding:
  assumes "http_get lib url = Inr data" and "image_open lib data = Inr img"
  shows "(format img = ''JPEG'' \<or> format img = ''JPG'' \<longrightarrow>
            compress_image lib cfg url w =
              (case image_save lib img \<lparr>save_format = ''JPEG'',
                      quality = Some (IMAGE_QUALITY cfg), compress_level = None\<rparr> of
                 Inl m \<Rightarrow> (Inl (Exception m), w)
               | Inr out \<Rightarrow> upload_image_to_s3 lib cfg out (lower (format img)) w))
       \<and> (format img = ''PNG'' \<longrightarrow>
            compress_image lib cfg url w =
              (case image_save lib img \<lparr>save_format = ''PNG'', quality = None,
                      compress_level = Some (IMAGE_QUALITY cfg div 10)\<rparr> of
                 Inl m \<Rightarrow> (Inl (Exception m), w)
               | Inr out \<Rightarrow> upload_image_to_s3 lib cfg out (lower (format img)) w))
       \<and> (format img \<notin> {''JPEG'', ''JPG'', ''PNG''} \<longrightarrow>
            compress_image lib cfg url w =
              (case image_save lib img \<lparr>save_format = format img, quality = None,
                      compress_level = None\<rparr> of
                 Inl m \<Rightarrow> (Inl (Exception m), w)
               | Inr out \<Rightarrow> upload_image_to_s3 lib cfg out (lower (format img)) w))"
  using assms by (simp add: compress_image_def encode_image_def)

theorem compress_image_encoding_witness:
  "compress_image lib0 cfg0 (ustr ''http://example.com/a.jpg'') world0 =
     (case image_save lib0 \<lparr>format = ''JPEG'', pixels = ''jpeg-bytes''\<rparr>
             \<lparr>save_format = ''JPEG'', quality = Some 50, compress_level = None\<rparr> of
        Inl m \<Rightarrow> (Inl (Exception m), world0)
      | Inr out \<Rightarrow> upload_image_to_s3 lib0 cfg0 out ''jpeg'' world0)
   \<and> compress_image lib0 cfg0 (ustr ''http://example.com/b.png'') world0 =
     (case image_save lib0 \<lparr>format = ''PNG'', pixels = ''png-bytes''\<rparr>
             \<lparr>save_format = ''PNG'', quality = None, compress_level = Some 5\<rparr> of
        Inl m \<Rightarrow> (Inl (Exception m), world0)
      | Inr out \<Rightarrow> upload_image_to_s3 lib0 cfg0 out ''png'' world0)
   \<and> compress_image lib0 cfg0 (ustr ''http://example.com/c.gif'') world0 =
     (case image_save lib0 \<lparr>format = ''GIF'', pixels = ''gif-bytes''\<rparr>
             \<lparr>save_format = ''GIF'', quality = None, compress_level = None\<rparr> of
        Inl m \<Rightarrow> (Inl (Exception m), world0)
      | Inr out \<Rightarrow> upload_image_to_s3 lib0 cfg0 out ''gif'' world0)"
  using
    compress_image_encoding [of lib0 "ustr ''http://example.com/a.jpg''" "''jpeg-bytes''"
      "\<lparr>format = ''JPEG'', pixels = ''jpeg-bytes''\<rparr>" cfg0 world0]
    compress_image_encoding [of lib0 "ustr ''http://example.com/b.png''" "''png-bytes''"
      "\<lparr>format = ''PNG'', pixels = ''png-bytes''\<rparr>" cfg0 world0]
    compress_image_encoding [of lib0 "ustr ''http://example.com/c.gif''" "''gif-bytes''"
      "\<lparr>format = ''GIF'', pixels = ''gif-bytes''\<rparr>" cfg0 world0]
  by (simp add: lib0_simps cfg0_simps lower_formats)

section \<open>The status of an unknown job\<close>

text \<open>
  C4, at the request for a job that has no record. \<open>read_from_db\<close> raises the 404 inside
  its \<open>try\<close>, and its handler turns it into a 500: the response to
  \<open>GET /status/nosuchjob\<close> on an empty table has status 500, and its detail quotes the 404.
\<close>

theorem get_status_unknown_is_500:
  "get_status lib0 ''nosuchjob'' world0 =
     (Inl (HTTPException 500 ''Exception occurred: 404: requestId: nosuchjob not found!''),
      tick world0)"
  by (simp add: get_status_def read_from_db_def str_exn_def lib0_simps world0_simps)

text \<open>The other two cases of the status request: a stored record, and a failing store.\<close>

lemma get_status_unknown:
  "fault lib (aws_calls w) = None \<Longrightarrow> table w rid = None \<Longrightarrow>
     get_status lib rid w =
       (Inl (HTTPException 500 (''Exception occurred: ''
               @ str_http lib 404 (''requestId: '' @ rid @ '' not found!''))), tick w)"
  by (simp add: get_status_def read_from_db_def str_exn_def)

lemma get_status_found:
  "fault lib (aws_calls w) = None \<Longrightarrow> table w rid = Some item \<Longrightarrow>
     get_status lib rid w = (Inr item, tick w)"
  by (simp add: get_status_def read_from_db_def)

lemma get_status_store_failure:
  "fault lib (aws_calls w) = Some m \<Longrightarrow>
     get_status lib rid w = (Inl (HTTPException 500 (''Exception occurred: '' @ m)), tick w)"
  by (simp add: get_status_def read_from_db_def str_exn_def)

section \<open>The header row of the enriched document\<close>

text \<open>
  C3, at the job of the file \<open>csv1\<close>. The run completes, and the rows it hands to the CSV
  writer start with a row of one cell, the list of the four column names, where the data
  row has four cells.
\<close>

theorem header_row_is_one_cell:
  "fst (build_new_csv lib0 cfg0 ''a0000'' world1) =
     Inr [[StrList [''sno'', ''product_name'', ''image_urls'', ''Output Image Urls'']],
          [Str (ustr ''1''), Str (ustr ''Widget A''), Str (ustr ''http://example.com/a.jpg''),
           StrList [''https://image-bucket.s3.eu-west-1.amazonaws.com/aa0000.jpeg'']]]
   \<and> fst (process_body lib0 cfg0 ''a0000'' world1) = Inr ()"
  by (simp add: process_body_def store_new_csv_def build_new_csv_def compress_image_def
      encode_image_def store_run lib0_simps cfg0_simps world1_simps csv1_rows lower_formats
      split_comma_urls utf8_ustr)

section \<open>What the store operations change\<close>

lemma write_to_db_s3: "write_to_db lib item w = (r, w') \<Longrightarrow> s3 w' = s3 w"
  by (auto simp: write_to_db_def tick_def split: option.splits)


lemma read_from_s3_Inr:
  "read_from_s3 lib cfg rid w = (Inr c, w') \<Longrightarrow>
     \<exists>obj. s3 w (csv_key cfg rid) = Some obj \<and> body obj = c"
  by (auto simp: read_from_s3_def split: option.splits)

lemma upload_to_s3_replace_Inr:
  "upload_to_s3_replace lib cfg buffer rid w = (Inr u, w') \<Longrightarrow>
     s3 w' (csv_key cfg rid) = Some \<lparr>body = buffer, metadata = [(''Content-Type'', ''text/csv'')]\<rparr>"
  by (auto simp: upload_to_s3_replace_def tick_def Let_def split: option.splits)


section \<open>The rows of the enriched document\<close>

lemma compress_all_in_order:
  "compress_all lib cfg urls w = (Inr us, w') \<Longrightarrow> calls_in_order lib cfg urls us w w'"
proof (induction urls arbitrary: w us)
  case Nil
  then have "us = []" "w' = w" by simp_all
  then have "length [w] = Suc (length ([] :: ustring list)) \<and> hd [w] = w \<and> last [w] = w' \<and>
      length us = length ([] :: ustring list)"
    by simp
  then show ?case unfolding calls_in_order_def by (intro exI [of _ "[w]"]) simp
next
  case (Cons url urls)
  from Cons.prems obtain u w1 rest where
    1: "compress_image lib cfg url w = (Inr u, w1)" and
    2: "compress_all lib cfg urls w1 = (Inr rest, w')" and
    3: "us = u # rest"
    by (auto split: prod.splits sum.splits)
  from Cons.IH [OF 2] obtain ws where
    ws: "length ws = Suc (length urls)" "hd ws = w1" "last ws = w'"
        "length rest = length urls"
        "\<forall>k < length urls.
           compress_image lib cfg (urls ! k) (ws ! k) = (Inr (rest ! k), ws ! Suc k)"
    unfolding calls_in_order_def by blast
  from ws(1) have ne: "ws \<noteq> []" by auto
  with ws(2) have w0: "ws ! 0 = w1" by (simp add: hd_conv_nth)
  have step: "compress_image lib cfg ((url # urls) ! k) ((w # ws) ! k)
                = (Inr (us ! k), (w # ws) ! Suc k)"
    if "k < length (url # urls)" for k
  proof (cases k)
    case 0
    with 1 3 w0 show ?thesis by simp
  next
    case (Suc j)
    with that have "j < length urls" by simp
    with ws(5) Suc 3 show ?thesis by simp
  qed
  have "length (w # ws) = Suc (length (url # urls)) \<and> hd (w # ws) = w \<and>
        last (w # ws) = w' \<and> length us = length (url # urls)"
    using ws(1,3,4) ne 3 by simp
  moreover have "\<forall>k < length (url # urls).
      compress_image lib cfg ((url # urls) ! k) ((w # ws) ! k)
        = (Inr (us ! k), (w # ws) ! Suc k)"
  proof (intro allI impI)
    fix k
    assume "k < length (url # urls)"
    then show "compress_image lib cfg ((url # urls) ! k) ((w # ws) ! k)
                 = (Inr (us ! k), (w # ws) ! Suc k)"
      by (rule step)
  qed
  ultimately show ?case unfolding calls_in_order_def
    by (intro exI [of _ "w # ws"]) (simp only: simp_thms)
qed

lemma process_rows_in_order:
  "process_rows lib cfg rows w = (Inr enriched, w') \<Longrightarrow>
     \<exists>vs. length vs = Suc (length rows) \<and> hd vs = w \<and> last vs = w' \<and>
          length enriched = length rows \<and>
          (\<forall>i < length rows. \<exists>us.
             enriched ! i = map Str (rows ! i) @ [StrList us] \<and>
             calls_in_order lib cfg (split_comma (rows ! i ! 2)) us (vs ! i) (vs ! Suc i))"
proof (induction rows arbitrary: w enriched)
  case Nil
  then have "enriched = []" "w' = w" by simp_all
  then have "length [w] = Suc (length ([] :: ustring list list)) \<and> hd [w] = w \<and>
      last [w] = w' \<and> length enriched = length ([] :: ustring list list)"
    by simp
  then show ?case by (intro exI [of _ "[w]"]) simp
next
  case (Cons row rows)
  from Cons.prems obtain us w1 rest where
    1: "compress_all lib cfg (split_comma (row ! 2)) w = (Inr us, w1)" and
    2: "process_rows lib cfg rows w1 = (Inr rest, w')" and
    3: "enriched = (map Str row @ [StrList us]) # rest"
    by (auto split: if_splits prod.splits sum.splits)
  from Cons.IH [OF 2] obtain vs where
    vs: "length vs = Suc (length rows)" "hd vs = w1" "last vs = w'"
        "length rest = length rows"
        "\<forall>i < length rows. \<exists>us.
             rest ! i = map Str (rows ! i) @ [StrList us] \<and>
             calls_in_order lib cfg (split_comma (rows ! i ! 2)) us (vs ! i) (vs ! Suc i)"
    by blast
  from vs(1) have ne: "vs \<noteq> []" by auto
  with vs(2) have v0: "vs ! 0 = w1" by (simp add: hd_conv_nth)
  have first: "calls_in_order lib cfg (split_comma (row ! 2)) us w w1"
    using compress_all_in_order [OF 1] .
  have step: "\<exists>us. enriched ! i = map Str ((row # rows) ! i) @ [StrList us] \<and>
             calls_in_order lib cfg (split_comma ((row # rows) ! i ! 2)) us
               ((w # vs) ! i) ((w # vs) ! Suc i)"
    if "i < length (row # rows)" for i
  proof (cases i)
    case 0
    with first 3 v0 show ?thesis by simp
  next
    case (Suc j)
    with that have "j < length rows" by simp
    with vs(5) Suc 3 show ?thesis by simp
  qed
  have "length (w # vs) = Suc (length (row # rows)) \<and> hd (w # vs) = w \<and>
        last (w # vs) = w' \<and> length enriched = length (row # rows)"
    using vs(1,3,4) ne 3 by simp
  moreover have "\<forall>i < length (row # rows). \<exists>us.
             enriched ! i = map Str ((row # rows) ! i) @ [StrList us] \<and>
             calls_in_order lib cfg (split_comma ((row # rows) ! i ! 2)) us
               ((w # vs) ! i) ((w # vs) ! Suc i)"
  proof (intro allI impI)
    fix i
    assume "i < length (row # rows)"
    then show "\<exists>us. enriched ! i = map Str ((row # rows) ! i) @ [StrList us] \<and>
             calls_in_order lib cfg (split_comma ((row # rows) ! i ! 2)) us
               ((w # vs) ! i) ((w # vs) ! Suc i)"
      by (rule step)
  qed
  ultimately show ?case
    by (intro exI [of _ "w # vs"]) (simp only: simp_thms)
qed

lemma build_new_csv_Inr:
  assumes "build_new_csv lib cfg rid w = (Inr new_csv, w')"
  shows "\<exists>obj decoded headers rows enriched w1 w2.
      s3 w (csv_key cfg rid) = Some obj \<and> decode_utf8 lib (body obj) = Inr decoded
    \<and> csv_reader lib decoded = (headers # rows, None)
    \<and> new_csv = [StrList (map utf8 headers @ [''Output Image Urls''])] # enriched
    \<and> write_to_db lib \<lparr>requestId = rid, status = ''Processing in progress!''\<rparr> w = (Inr (), w1)
    \<and> read_from_s3 lib cfg rid w1 = (Inr (body obj), w2)
    \<and> process_rows lib cfg rows w2 = (Inr enriched, w')"
proof -
  from assms obtain w1 w2 file_content decoded headers rows enriched where
    1: "write_to_db lib \<lparr>requestId = rid, status = ''Processing in progress!''\<rparr> w = (Inr (), w1)" and
    2: "read_from_s3 lib cfg rid w1 = (Inr file_content, w2)" and
    3: "decode_utf8 lib file_content = Inr decoded" and
    4: "csv_reader lib decoded = (headers # rows, None)" and
    5: "process_rows lib cfg rows w2 = (Inr enriched, w')" and
    6: "new_csv = [StrList (map utf8 headers @ [''Output Image Urls''])] # enriched"
    unfolding build_new_csv_def
    by (auto split: prod.splits sum.splits list.splits option.splits)
  from read_from_s3_Inr [OF 2] write_to_db_s3 [OF 1] obtain obj where
    "s3 w (csv_key cfg rid) = Some obj" "body obj = file_content"
    by auto
  with 1 2 3 4 5 6 show ?thesis by blast
qed

lemma header_row_length:
  "build_new_csv lib cfg rid w = (Inr new_csv, w') \<Longrightarrow> length (hd new_csv) = 1"
  by (auto dest: build_new_csv_Inr)

text \<open>
  C2. When the \<open>try\<close> body of a job's run succeeds, the document stored under the job's key
  is the writer's output for the header row followed by one row for each data row the
  reader yields from the original document, in order. Each such row is the input row with
  one more cell, the list of output URLs, which has one entry for each entry of the row's
  third field split at commas. The entries are in the order of the input: the run calls
  \<open>compress_image\<close> once for each URL, row after row and within a row from the first URL to
  the last, each call in the stores the call before it left, and the \<open>k\<close>-th output URL of a
  row is what the call for its \<open>k\<close>-th URL returned.
\<close>

theorem enriched_rows:
  assumes "process_body lib cfg rid w = (Inr (), w')"
  shows "\<exists>obj decoded headers rows enriched vs w1 w2.
      s3 w (csv_key cfg rid) = Some obj \<and> decode_utf8 lib (body obj) = Inr decoded
    \<and> csv_reader lib decoded = (headers # rows, None)
    \<and> map_option body (s3 w' (csv_key cfg rid))
        = Some (csv_writer lib ([StrList (map utf8 headers @ [''Output Image Urls''])] # enriched))
    \<and> length enriched = length rows
    \<and> length vs = Suc (length rows)
    \<and> write_to_db lib \<lparr>requestId = rid, status = ''Processing in progress!''\<rparr> w = (Inr (), w1)
    \<and> read_from_s3 lib cfg rid w1 = (Inr (body obj), hd vs)
    \<and> upload_to_s3_replace lib cfg
          (csv_writer lib ([StrList (map utf8 headers @ [''Output Image Urls''])] # enriched))
          rid (last vs) = (Inr (), w2)
    \<and> (\<forall>i < length rows. \<exists>us.
          enriched ! i = map Str (rows ! i) @ [StrList us]
        \<and> length (enriched ! i) = length (rows ! i) + 1
        \<and> length us = length (split_comma (rows ! i ! 2))
        \<and> calls_in_order lib cfg (split_comma (rows ! i ! 2)) us (vs ! i) (vs ! Suc i))"
proof -
  from assms obtain new_csv v1 v2 where
    1: "build_new_csv lib cfg rid w = (Inr new_csv, v1)" and
    2: "upload_to_s3_replace lib cfg (csv_writer lib new_csv) rid v1 = (Inr (), v2)" and
    3: "write_to_db lib \<lparr>requestId = rid, status = ''Processing completed successfully!''\<rparr> v2
          = (Inr (), w')"
    unfolding process_body_def store_new_csv_def
    by (auto split: prod.splits sum.splits)
  from build_new_csv_Inr [OF 1] obtain obj decoded headers rows enriched w1 w2 where
    4: "s3 w (csv_key cfg rid) = Some obj" "decode_utf8 lib (body obj) = Inr decoded"
       "csv_reader lib decoded = (headers # rows, None)"
       "new_csv = [StrList (map utf8 headers @ [''Output Image Urls''])] # enriched" and
    5: "write_to_db lib \<lparr>requestId = rid, status = ''Processing in progress!''\<rparr> w = (Inr (), w1)"
       "read_from_s3 lib cfg rid w1 = (Inr (body obj), w2)" and
    6: "process_rows lib cfg rows w2 = (Inr enriched, v1)"
    by blast
  from process_rows_in_order [OF 6] obtain vs where
    vs: "length vs = Suc (length rows)" "hd vs = w2" "last vs = v1"
        "length enriched = length rows" and
    each: "\<forall>i < length rows. \<exists>us.
             enriched ! i = map Str (rows ! i) @ [StrList us] \<and>
             calls_in_order lib cfg (split_comma (rows ! i ! 2)) us (vs ! i) (vs ! Suc i)"
    by blast
  have 7: "map_option body (s3 w' (csv_key cfg rid)) = Some (csv_writer lib new_csv)"
    using upload_to_s3_replace_Inr [OF 2] write_to_db_s3 [OF 3] by simp
  have 8: "\<forall>i < length rows. \<exists>us.
          enriched ! i = map Str (rows ! i) @ [StrList us]
        \<and> length (enriched ! i) = length (rows ! i) + 1
        \<and> length us = length (split_comma (rows ! i ! 2))
        \<and> calls_in_order lib cfg (split_comma (rows ! i ! 2)) us (vs ! i) (vs ! Suc i)"
  proof (intro allI impI)
    fix i
    assume "i < length rows"
    with each obtain us where
      u: "enriched ! i = map Str (rows ! i) @ [StrList us]"
         "calls_in_order lib cfg (split_comma (rows ! i ! 2)) us (vs ! i) (vs ! Suc i)"
      by blast
    from u(2) have "length us = length (split_comma (rows ! i ! 2))"
      unfolding calls_in_order_def by blast
    with u show "\<exists>us.
          enriched ! i = map Str (rows ! i) @ [StrList us]
        \<and> length (enriched ! i) = length (rows ! i) + 1
        \<and> length us = length (split_comma (rows ! i ! 2))
        \<and> calls_in_order lib cfg (split_comma (rows ! i ! 2)) us (vs ! i) (vs ! Suc i)"
      by (intro exI [of _ us]) simp
  qed
  from 2 4(4) vs(3) have 9: "upload_to_s3_replace lib cfg
          (csv_writer lib ([StrList (map utf8 headers @ [''Output Image Urls''])] # enriched))
          rid (last vs) = (Inr (), v2)"
    by simp
  from 5(2) vs(2) have 10: "read_from_s3 lib cfg rid w1 = (Inr (body obj), hd vs)"
    by simp
  from 7 4(4) have 11: "map_option body (s3 w' (csv_key cfg rid))
        = Some (csv_writer lib ([StrList (map utf8 headers @ [''Output Image Urls''])] # enriched))"
    by simp
  show ?thesis
    using 4(1,2,3) 11 vs(4) vs(1) 5(1) 10 9 8
    by (intro exI [of _ obj] exI [of _ decoded] exI [of _ headers] exI [of _ rows]
        exI [of _ enriched] exI [of _ vs] exI [of _ w1] exI [of _ v2] conjI)
qed

lemma build_new_csv2:
  "fst (build_new_csv lib0 cfg0 ''a0000'' world_two) =
     Inr [[StrList [''sno'', ''product_name'', ''image_urls'', ''Output Image Urls'']],
          map Str (map ustr [''1'', ''Widget A'',
                             ''http://example.com/a.jpg,http://example.com/b.png''])
            @ [StrList [''https://image-bucket.s3.eu-west-1.amazonaws.com/aa0000.jpeg'',
                        ''https://image-bucket.s3.eu-west-1.amazonaws.com/aaa0000.png'']],
          map Str (map ustr [''2'', ''Widget B'', ''http://example.com/c.gif''])
            @ [StrList [''https://image-bucket.s3.eu-west-1.amazonaws.com/aaaa0000.gif'']]]"
  by (simp add: build_new_csv_def compress_image_def encode_image_def store_run lib0_simps
      cfg0_simps world_two_simps csv2_rows lower_formats split_comma_urls utf8_ustr)

lemma process_body2: "process_body lib0 cfg0 ''a0000'' world_two = (Inr (), world2)"
proof -
  have "fst (process_body lib0 cfg0 ''a0000'' world_two) = Inr ()"
    by (simp add: process_body_def store_new_csv_def build_new_csv_def compress_image_def
        encode_image_def store_run lib0_simps cfg0_simps world_two_simps csv2_rows
        lower_formats split_comma_urls utf8_ustr)
  then show ?thesis
    by (simp add: world2_def prod_eq_iff)
qed

theorem enriched_rows_witness:
  "process_body lib0 cfg0 ''a0000'' world_two = (Inr (), world2)
   \<and> fst (build_new_csv lib0 cfg0 ''a0000'' world_two) =
     Inr [[StrList [''sno'', ''product_name'', ''image_urls'', ''Output Image Urls'']],
          map Str (map ustr [''1'', ''Widget A'',
                             ''http://example.com/a.jpg,http://example.com/b.png''])
            @ [StrList [''https://image-bucket.s3.eu-west-1.amazonaws.com/aa0000.jpeg'',
                        ''https://image-bucket.s3.eu-west-1.amazonaws.com/aaa0000.png'']],
          map Str (map ustr [''2'', ''Widget B'', ''http://example.com/c.gif''])
            @ [StrList [''https://image-bucket.s3.eu-west-1.amazonaws.com/aaaa0000.gif'']]]
   \<and> (\<exists>obj decoded headers rows enriched vs w1 w2.
      s3 world_two (csv_key cfg0 ''a0000'') = Some obj
    \<and> decode_utf8 lib0 (body obj) = Inr decoded
    \<and> csv_reader lib0 decoded = (headers # rows, None)
    \<and> map_option body (s3 world2 (csv_key cfg0 ''a0000''))
        = Some (csv_writer lib0 ([StrList (map utf8 headers @ [''Output Image Urls''])] # enriched))
    \<and> length enriched = length rows
    \<and> length vs = Suc (length rows)
    \<and> write_to_db lib0 \<lparr>requestId = ''a0000'', status = ''Processing in progress!''\<rparr> world_two
        = (Inr (), w1)
    \<and> read_from_s3 lib0 cfg0 ''a0000'' w1 = (Inr (body obj), hd vs)
    \<and> upload_to_s3_replace lib0 cfg0
          (csv_writer lib0 ([StrList (map utf8 headers @ [''Output Image Urls''])] # enriched))
          ''a0000'' (last vs) = (Inr (), w2)
    \<and> (\<forall>i < length rows. \<exists>us.
          enriched ! i = map Str (rows ! i) @ [StrList us]
        \<and> length (enriched ! i) = length (rows ! i) + 1
        \<and> length us = length (split_comma (rows ! i ! 2))
        \<and> calls_in_order lib0 cfg0 (split_comma (rows ! i ! 2)) us (vs ! i) (vs ! Suc i)))"
  using enriched_rows [OF process_body2] process_body2 build_new_csv2 by simp
section \<open>Failures of a run\<close>










lemma lib_fault_simps:
  "fault (lib_fault k) n = (if n = k then Some ''service unavailable'' else None)"
  "http_get (lib_fault k) = http_get lib0" "image_open (lib_fault k) = image_open lib0"
  "image_save (lib_fault k) = image_save lib0" "decode_utf8 (lib_fault k) = decode_utf8 lib0"
  "csv_reader (lib_fault k) = csv_reader lib0" "csv_writer (lib_fault k) = csv_writer lib0"
  "uuid4 (lib_fault k) = uuid4 lib0" "str_http (lib_fault k) = str_http lib0"
  "repr_list (lib_fault k) = repr_list lib0"
  by (simp_all add: lib_fault_def)

lemma lib_down_simps:
  "fault lib_down n = Some ''service unavailable''"
  "str_http lib_down = str_http lib0"
  by (simp_all add: lib_down_def)

lemmas run_defs = process_file_def process_body_def store_new_csv_def build_new_csv_def
  compress_image_def encode_image_def failed_status_def str_exn_def







section \<open>Errors that leave the run\<close>

text \<open>
  C8, amended. Every error the \<open>try\<close> body of a run raises is caught, and the handler
  writes the failure status. When that write succeeds the run returns normally with the job
  failed; when that write fails, its exception, an \<open>HTTPException\<close> of status 500, leaves
  \<open>process_file\<close>.
\<close>

theorem body_errors_caught:
  assumes "process_body lib cfg rid w = (Inl e, w1)"
  shows "(fault lib (aws_calls w1) = None \<longrightarrow>
            process_file lib cfg rid w =
              (Inr (), (tick w1)\<lparr>table := (table w1)(rid \<mapsto>
                           \<lparr>requestId = rid, status = failed_status lib e\<rparr>)\<rparr>))
       \<and> (\<forall>m. fault lib (aws_calls w1) = Some m \<longrightarrow>
            process_file lib cfg rid w =
              (Inl (HTTPException 500 (''Error occurred while writing to DB: '' @ m)), tick w1))"
  using assms by (simp add: process_file_def write_to_db_def)

lemma body_unwritten:
  "process_body (lib_fault 3) cfg0 ''a0000'' world1
     = (Inl (Exception ''service unavailable''), world_unwritten)"
proof -
  have "fst (process_body (lib_fault 3) cfg0 ''a0000'' world1)
          = Inl (Exception ''service unavailable'')"
    by (simp add: run_defs store_run lib_fault_simps lib0_simps cfg0_simps world1_simps)
  then show ?thesis
    by (simp add: world_unwritten_def prod_eq_iff)
qed

lemma world_unwritten_calls: "aws_calls world_unwritten = 4"
  by (simp add: world_unwritten_def run_defs store_run lib_fault_simps lib0_simps cfg0_simps
      world1_simps)

lemma body_down:
  "process_body lib_down cfg0 ''a0000'' world1
     = (Inl (HTTPException 500 ''Error occurred while writing to DB: service unavailable''),
        tick world1)"
  by (simp add: run_defs store_run lib_down_simps)

theorem body_errors_caught_witness:
  "process_body (lib_fault 3) cfg0 ''a0000'' world1
     = (Inl (Exception ''service unavailable''), world_unwritten)
   \<and> fault (lib_fault 3) (aws_calls world_unwritten) = None
   \<and> process_file (lib_fault 3) cfg0 ''a0000'' world1 =
       (Inr (), (tick world_unwritten)\<lparr>table := (table world_unwritten)(''a0000'' \<mapsto>
          \<lparr>requestId = ''a0000'',
           status = ''Processing failed due to service unavailable!''\<rparr>)\<rparr>)
   \<and> process_body lib_down cfg0 ''a0000'' world1
     = (Inl (HTTPException 500 ''Error occurred while writing to DB: service unavailable''),
        tick world1)
   \<and> fault lib_down (aws_calls (tick world1)) = Some ''service unavailable''
   \<and> process_file lib_down cfg0 ''a0000'' world1 =
       (Inl (HTTPException 500 ''Error occurred while writing to DB: service unavailable''),
        tick (tick world1))"
  using body_errors_caught [OF body_unwritten] body_errors_caught [OF body_down]
    body_unwritten body_down
  by (simp add: lib_fault_simps lib_down_simps world_unwritten_calls failed_status_def
      str_exn_def)

text \<open>
  C8 as stated fails when the Job Store is unavailable: the first status write of the body
  fails, the handler's status write fails as well, and its exception leaves \<open>process_file\<close>.
\<close>

theorem unhandled_fault_counterexample:
  "fst (process_file lib_down cfg0 ''a0000'' world1)
     = Inl (HTTPException 500 ''Error occurred while writing to DB: service unavailable'')"
  by (simp add: run_defs store_run lib_down_simps)

section \<open>Rejected uploads\<close>

lemma upload_csv_rejected:
  assumes "content_type file = ''text/csv''"
    and "int (length (content file)) \<le> MAX_FILE_SIZE cfg"
    and "validate_csv lib cfg (content file) = Inl (HTTPException c d)"
  shows "upload_csv lib cfg file w = (Inl (HTTPException c d), w)"
  using assms by (simp add: upload_csv_def)

lemma upload_csv_parsing_failed:
  assumes "content_type file = ''text/csv''"
    and "int (length (content file)) \<le> MAX_FILE_SIZE cfg"
    and "validate_csv lib cfg (content file) = Inl (Exception m)"
  shows "upload_csv lib cfg file w =
           (Inl (HTTPException 500 (''CSV parsing failed with exception: '' @ m)), w)"
  using assms by (simp add: upload_csv_def)

text \<open>
  C5, amended. Let an upload of content type \<open>text/csv\<close> within the size limit decode, and
  let the reader yield its rows without an error, the first of them not the configured list
  of column names. Then the upload is rejected with status 400 and the stores and the
  scheduled runs are as they were: no blob, no job record, no run. The error is the
  header-mismatch error when there is a data row, and the empty-file error when the header
  is the only row.
\<close>

theorem header_mismatch_rejected:
  assumes "content_type file = ''text/csv''"
    and "int (length (content file)) \<le> MAX_FILE_SIZE cfg"
    and "decode_utf8 lib (content file) = Inr decoded"
    and "csv_reader lib decoded = (headers # rows, None)"
    and "headers \<noteq> VALID_HEADERS cfg"
  shows "(rows \<noteq> [] \<longrightarrow>
            upload_csv lib cfg file w =
              (Inl (HTTPException 400 (''CSV file headers are invalid. Allowed headers are ''
                      @ repr_list lib (VALID_HEADERS cfg))), w))
       \<and> (rows = [] \<longrightarrow>
            upload_csv lib cfg file w = (Inl (HTTPException 400 ''CSV file is empty''), w))"
proof (cases rows)
  case Nil
  with assms(3,4) have "validate_csv lib cfg (content file) = Inl (HTTPException 400 ''CSV file is empty'')"
    by (simp add: validate_csv_def)
  from upload_csv_rejected [OF assms(1,2) this] Nil show ?thesis by simp
next
  case (Cons row more)
  with assms(3,4,5) have "validate_csv lib cfg (content file) =
      Inl (HTTPException 400 (''CSV file headers are invalid. Allowed headers are ''
             @ repr_list lib (VALID_HEADERS cfg)))"
    by (simp add: validate_csv_def)
  from upload_csv_rejected [OF assms(1,2) this] Cons show ?thesis by simp
qed

lemma csv_reordered_rows:
  "simple_reader csv_reordered = (map ustr [''product_name'', ''sno'', ''image_urls'']
      # [map ustr [''Widget A'', ''1'', ''http://example.com/a.jpg'']], None)"
  by (simp add: simple_reader_def csv_reordered_def)

lemma csv_header_only_rows:
  "simple_reader csv_header_only
     = (map ustr [''product_name'', ''sno'', ''image_urls''] # [], None)"
  by (simp add: simple_reader_def csv_header_only_def)

lemma headers_reordered:
  "map ustr [''product_name'', ''sno'', ''image_urls''] \<noteq> VALID_HEADERS cfg0"
  by (simp add: cfg0_simps ustr_def)

theorem header_mismatch_rejected_witness:
  "content_type (csv_file csv_reordered) = ''text/csv''
   \<and> int (length (content (csv_file csv_reordered))) \<le> MAX_FILE_SIZE cfg0
   \<and> decode_utf8 lib0 (content (csv_file csv_reordered)) = Inr csv_reordered
   \<and> csv_reader lib0 csv_reordered = (map ustr [''product_name'', ''sno'', ''image_urls'']
        # [map ustr [''Widget A'', ''1'', ''http://example.com/a.jpg'']], None)
   \<and> map ustr [''product_name'', ''sno'', ''image_urls''] \<noteq> VALID_HEADERS cfg0
   \<and> upload_csv lib0 cfg0 (csv_file csv_reordered) world0 =
        (Inl (HTTPException 400
           (''CSV file headers are invalid. Allowed headers are ''
              @ py_list [''sno'', ''product_name'', ''image_urls''])),
         world0)
   \<and> csv_reader lib0 csv_header_only
        = (map ustr [''product_name'', ''sno'', ''image_urls''] # [], None)
   \<and> upload_csv lib0 cfg0 (csv_file csv_header_only) world0 =
        (Inl (HTTPException 400 ''CSV file is empty''), world0)"
  using
    header_mismatch_rejected [of "csv_file csv_reordered" cfg0 lib0 csv_reordered
      "map ustr [''product_name'', ''sno'', ''image_urls'']"
      "[map ustr [''Widget A'', ''1'', ''http://example.com/a.jpg'']]" world0]
    header_mismatch_rejected [of "csv_file csv_header_only" cfg0 lib0 csv_header_only
      "map ustr [''product_name'', ''sno'', ''image_urls'']" "[]" world0]
    headers_reordered
  by (simp add: csv_file_simps lib0_simps cfg0_simps csv_reordered_rows csv_header_only_rows
      utf8_ustr)
     (simp add: csv_reordered_def csv_header_only_def)

text \<open>
  C5 as stated fails on a file whose only row is a header that is not the configured one:
  the count of the rows is checked first, and the error is that of an empty file.
\<close>

theorem header_mismatch_counterexample:
  "fst (csv_reader lib0 csv_header_only) = [map ustr [''product_name'', ''sno'', ''image_urls'']]
   \<and> map ustr [''product_name'', ''sno'', ''image_urls''] \<noteq> VALID_HEADERS cfg0
   \<and> upload_csv lib0 cfg0 (csv_file csv_header_only) world0 =
        (Inl (HTTPException 400 ''CSV file is empty''), world0)"
  using headers_reordered
  by (simp add: upload_csv_def validate_csv_def csv_file_simps lib0_simps
      csv_header_only_rows)
     (simp add: csv_header_only_def cfg0_simps)

section \<open>Rows of more than three fields\<close>

lemma validate_row_wide:
  assumes "3 < length row"
  shows "validate_row lib row = Inl (Exception ''too many values to unpack (expected 3)'')"
proof -
  from assms obtain a r1 where 1: "row = a # r1" "2 < length r1"
    by (cases row) auto
  from 1(2) obtain b r2 where 2: "r1 = b # r2" "1 < length r2"
    by (cases r1) auto
  from 2(2) obtain c r3 where 3: "r2 = c # r3" "0 < length r3"
    by (cases r2) auto
  from 3(2) obtain d rest where 4: "r3 = d # rest"
    by (cases r3) auto
  from 1(1) 2(1) 3(1) 4 have "row = a # b # c # d # rest" by simp
  then show ?thesis by (simp add: validate_row_def)
qed

lemma validate_row_Inr_length: "validate_row lib row = Inr () \<Longrightarrow> length row = 3"
  by (auto simp: validate_row_def split: if_splits list.splits)

lemma validate_row_narrow:
  "length row \<le> 3 \<Longrightarrow> validate_row lib row = Inl e \<Longrightarrow> \<exists>d. e = HTTPException 400 d"
  by (auto simp: validate_row_def split: if_splits list.splits)

lemma validate_rows_append:
  "validate_rows lib pre = Inr () \<Longrightarrow>
     validate_rows lib (pre @ row # post) =
       (case validate_row lib row of Inl e \<Rightarrow> Inl e | Inr u \<Rightarrow> validate_rows lib post)"
  by (induction pre) (auto split: sum.splits)

lemma validate_rows_Inr_length:
  "validate_rows lib rows = Inr () \<Longrightarrow> row \<in> set rows \<Longrightarrow> length row = 3"
  by (induction rows) (auto split: sum.splits dest: validate_row_Inr_length)

lemma validate_rows_Inl_first:
  "validate_rows lib rows = Inl e \<Longrightarrow>
     \<exists>p r q. rows = p @ r # q \<and> validate_rows lib p = Inr () \<and> validate_row lib r = Inl e"
proof (induction rows)
  case Nil
  then show ?case by simp
next
  case (Cons row rows)
  show ?case
  proof (cases "validate_row lib row")
    case (Inl e1)
    with Cons.prems have "validate_row lib row = Inl e" by simp
    then have "row # rows = [] @ row # rows \<and> validate_rows lib [] = Inr ()
        \<and> validate_row lib row = Inl e"
      by simp
    then show ?thesis by (intro exI)
  next
    case (Inr u)
    with Cons.prems have "validate_rows lib rows = Inl e" by simp
    from Cons.IH [OF this] obtain p r q where
      1: "rows = p @ r # q" "validate_rows lib p = Inr ()" "validate_row lib r = Inl e"
      by (elim exE conjE)
    from 1 Inr have "row # rows = (row # p) @ r # q \<and> validate_rows lib (row # p) = Inr ()
        \<and> validate_row lib r = Inl e"
      by simp
    then show ?thesis by (intro exI)
  qed
qed

text \<open>
  C10, amended. Let an upload of content type \<open>text/csv\<close> within the size limit decode, and
  let the reader yield its rows without an error, one of the data rows having more than
  three fields. Then the upload is rejected and the stores and the scheduled runs are as
  they were. When the header is the configured one and every data row before such a row
  passes validation, the response is the 500 made from the failed unpacking of that row.
  Otherwise an earlier check decides the response, which is a 400: on a header that is not
  the configured one, the header-mismatch error; on the configured header, with that row
  the first of more than three fields, the error of the first data row that fails
  validation.
\<close>

theorem wide_row_rejected:
  assumes "content_type file = ''text/csv''"
    and "int (length (content file)) \<le> MAX_FILE_SIZE cfg"
    and "decode_utf8 lib (content file) = Inr decoded"
    and "csv_reader lib decoded = (headers # pre @ row # post, None)"
    and "3 < length row"
  shows "(\<exists>e. upload_csv lib cfg file w = (Inl e, w))
       \<and> (headers = VALID_HEADERS cfg \<and> validate_rows lib pre = Inr () \<longrightarrow>
            upload_csv lib cfg file w =
              (Inl (HTTPException 500
                 ''CSV parsing failed with exception: too many values to unpack (expected 3)''),
               w))
       \<and> (headers \<noteq> VALID_HEADERS cfg \<longrightarrow>
            upload_csv lib cfg file w =
              (Inl (HTTPException 400 (''CSV file headers are invalid. Allowed headers are ''
                      @ repr_list lib (VALID_HEADERS cfg))), w))
       \<and> (headers = VALID_HEADERS cfg \<and> (\<forall>r \<in> set pre. length r \<le> 3)
            \<and> validate_rows lib pre \<noteq> Inr () \<longrightarrow>
            (\<exists>p r q d. pre = p @ r # q \<and> validate_rows lib p = Inr ()
               \<and> validate_row lib r = Inl (HTTPException 400 d)
               \<and> upload_csv lib cfg file w = (Inl (HTTPException 400 d), w)))"
proof -
  have wide: "validate_row lib row = Inl (Exception ''too many values to unpack (expected 3)'')"
    using validate_row_wide [OF assms(5)] .
  have "validate_rows lib (pre @ row # post) \<noteq> Inr ()"
    using validate_rows_Inr_length [of lib "pre @ row # post" row] assms(5) by auto
  then obtain e0 where "validate_rows lib (pre @ row # post) = Inl e0"
    by (cases "validate_rows lib (pre @ row # post)") auto
  with assms(3,4) have "\<exists>e1. validate_csv lib cfg (content file) = Inl e1"
    by (simp add: validate_csv_def)
  then obtain e1 where v: "validate_csv lib cfg (content file) = Inl e1" ..
  have first: "\<exists>e. upload_csv lib cfg file w = (Inl e, w)"
  proof (cases e1)
    case (HTTPException c d)
    with v upload_csv_rejected [OF assms(1,2)] show ?thesis by blast
  next
    case (Exception m)
    with v upload_csv_parsing_failed [OF assms(1,2)] show ?thesis by blast
  qed
  have second: "upload_csv lib cfg file w =
              (Inl (HTTPException 500
                 ''CSV parsing failed with exception: too many values to unpack (expected 3)''),
               w)"
    if "headers = VALID_HEADERS cfg" and "validate_rows lib pre = Inr ()"
  proof -
    have "validate_rows lib (pre @ row # post)
            = Inl (Exception ''too many values to unpack (expected 3)'')"
      using validate_rows_append [OF that(2)] wide by simp
    with assms(3,4) that(1) have "validate_csv lib cfg (content file)
            = Inl (Exception ''too many values to unpack (expected 3)'')"
      by (simp add: validate_csv_def)
    from upload_csv_parsing_failed [OF assms(1,2) this] show ?thesis by simp
  qed
  have third: "upload_csv lib cfg file w =
              (Inl (HTTPException 400 (''CSV file headers are invalid. Allowed headers are ''
                      @ repr_list lib (VALID_HEADERS cfg))), w)"
    if "headers \<noteq> VALID_HEADERS cfg"
  proof -
    from assms(3,4) that have "validate_csv lib cfg (content file) =
        Inl (HTTPException 400 (''CSV file headers are invalid. Allowed headers are ''
               @ repr_list lib (VALID_HEADERS cfg)))"
      by (simp add: validate_csv_def)
    from upload_csv_rejected [OF assms(1,2) this] show ?thesis .
  qed
  have fourth: "\<exists>p r q d. pre = p @ r # q \<and> validate_rows lib p = Inr ()
               \<and> validate_row lib r = Inl (HTTPException 400 d)
               \<and> upload_csv lib cfg file w = (Inl (HTTPException 400 d), w)"
    if "headers = VALID_HEADERS cfg" and "\<forall>r \<in> set pre. length r \<le> 3"
      and "validate_rows lib pre \<noteq> Inr ()"
  proof -
    from that(3) obtain e where "validate_rows lib pre = Inl e"
      by (cases "validate_rows lib pre") auto
    from validate_rows_Inl_first [OF this] obtain p r q where
      1: "pre = p @ r # q" "validate_rows lib p = Inr ()" "validate_row lib r = Inl e"
      by (elim exE conjE)
    from 1(1) that(2) have "length r \<le> 3" by simp
    from validate_row_narrow [OF this 1(3)] obtain d where 2: "e = HTTPException 400 d" ..
    have "pre @ row # post = p @ r # (q @ row # post)"
      using 1(1) by simp
    then have "validate_rows lib (pre @ row # post) = Inl (HTTPException 400 d)"
      using validate_rows_append [OF 1(2), of r "q @ row # post"] 1(3) 2 by simp
    with assms(3,4) that(1) have "validate_csv lib cfg (content file)
            = Inl (HTTPException 400 d)"
      by (simp add: validate_csv_def)
    from upload_csv_rejected [OF assms(1,2) this]
    have "upload_csv lib cfg file w = (Inl (HTTPException 400 d), w)" .
    with 1 2 have "pre = p @ r # q \<and> validate_rows lib p = Inr ()
               \<and> validate_row lib r = Inl (HTTPException 400 d)
               \<and> upload_csv lib cfg file w = (Inl (HTTPException 400 d), w)"
      by simp
    then show ?thesis by (intro exI)
  qed
  from first second third fourth show ?thesis by (intro conjI impI) auto
qed

lemma csv_wide_rows:
  "simple_reader csv_wide = (map ustr [''sno'', ''product_name'', ''image_urls'']
      # [map ustr [''1'', ''Widget A'', ''http://example.com/a.jpg'']]
        @ map ustr [''2'', ''Widget B'', ''http://example.com/b.png'', ''extra''] # [], None)"
  by (simp add: simple_reader_def csv_wide_def)

lemma csv_bad_then_wide_rows:
  "simple_reader csv_bad_then_wide = (map ustr [''sno'', ''product_name'', ''image_urls'']
      # [map ustr [''x'', ''Widget A'', ''http://example.com/a.jpg'']]
        @ map ustr [''2'', ''Widget B'', ''http://example.com/b.png'', ''extra''] # [], None)"
  by (simp add: simple_reader_def csv_bad_then_wide_def)

lemma csv_reordered_wide_rows:
  "simple_reader csv_reordered_wide = (map ustr [''product_name'', ''sno'', ''image_urls'']
      # [] @ map ustr [''2'', ''Widget B'', ''http://example.com/b.png'', ''extra''] # [], None)"
  by (simp add: simple_reader_def csv_reordered_wide_def)

lemma validate_row_bad:
  "validate_row lib0 (map ustr [''x'', ''Widget A'', ''http://example.com/a.jpg''])
     = Inl (HTTPException 400 ''Invalid S.No. (not a number): x'')"
  by (simp add: validate_row_def fields_valid utf8_ustr)

lemma csv_wide_sizes:
  "int (length csv_wide) \<le> MAX_FILE_SIZE cfg0"
  "int (length csv_bad_then_wide) \<le> MAX_FILE_SIZE cfg0"
  "int (length csv_reordered_wide) \<le> MAX_FILE_SIZE cfg0"
  by (simp_all add: csv_wide_def csv_bad_then_wide_def csv_reordered_wide_def cfg0_simps)

theorem wide_row_rejected_witness:
  "content_type (csv_file csv_wide) = ''text/csv''
   \<and> int (length (content (csv_file csv_wide))) \<le> MAX_FILE_SIZE cfg0
   \<and> decode_utf8 lib0 (content (csv_file csv_wide)) = Inr csv_wide
   \<and> csv_reader lib0 csv_wide = (map ustr [''sno'', ''product_name'', ''image_urls'']
        # [map ustr [''1'', ''Widget A'', ''http://example.com/a.jpg'']]
          @ map ustr [''2'', ''Widget B'', ''http://example.com/b.png'', ''extra''] # [], None)
   \<and> 3 < length (map ustr [''2'', ''Widget B'', ''http://example.com/b.png'', ''extra''])
   \<and> map ustr [''sno'', ''product_name'', ''image_urls''] = VALID_HEADERS cfg0
   \<and> validate_rows lib0 [map ustr [''1'', ''Widget A'', ''http://example.com/a.jpg'']] = Inr ()
   \<and> upload_csv lib0 cfg0 (csv_file csv_wide) world0 =
        (Inl (HTTPException 500
           ''CSV parsing failed with exception: too many values to unpack (expected 3)''),
         world0)
   \<and> csv_reader lib0 csv_bad_then_wide = (map ustr [''sno'', ''product_name'', ''image_urls'']
        # [map ustr [''x'', ''Widget A'', ''http://example.com/a.jpg'']]
          @ map ustr [''2'', ''Widget B'', ''http://example.com/b.png'', ''extra''] # [], None)
   \<and> map length [map ustr [''x'', ''Widget A'', ''http://example.com/a.jpg'']] = [3]
   \<and> validate_rows lib0 [map ustr [''x'', ''Widget A'', ''http://example.com/a.jpg'']]
        = Inl (HTTPException 400 ''Invalid S.No. (not a number): x'')
   \<and> upload_csv lib0 cfg0 (csv_file csv_bad_then_wide) world0 =
        (Inl (HTTPException 400 ''Invalid S.No. (not a number): x''), world0)
   \<and> csv_reader lib0 csv_reordered_wide
        = (map ustr [''product_name'', ''sno'', ''image_urls'']
           # [] @ map ustr [''2'', ''Widget B'', ''http://example.com/b.png'', ''extra''] # [],
           None)
   \<and> map ustr [''product_name'', ''sno'', ''image_urls''] \<noteq> VALID_HEADERS cfg0
   \<and> upload_csv lib0 cfg0 (csv_file csv_reordered_wide) world0 =
        (Inl (HTTPException 400
           (''CSV file headers are invalid. Allowed headers are ''
              @ py_list [''sno'', ''product_name'', ''image_urls''])),
         world0)"
proof -
  have valid: "validate_rows lib0 [map ustr [''1'', ''Widget A'', ''http://example.com/a.jpg'']]
                 = Inr ()"
    using validate_rows_valid(1) [of lib0] by simp
  have bad: "validate_rows lib0 [map ustr [''x'', ''Widget A'', ''http://example.com/a.jpg'']]
                 = Inl (HTTPException 400 ''Invalid S.No. (not a number): x'')"
    using validate_row_bad by simp
  have hdr: "map ustr [''sno'', ''product_name'', ''image_urls''] = VALID_HEADERS cfg0"
    by (simp add: cfg0_simps)
  have a: "upload_csv lib0 cfg0 (csv_file csv_wide) world0 =
        (Inl (HTTPException 500
           ''CSV parsing failed with exception: too many values to unpack (expected 3)''),
         world0)"
    using wide_row_rejected [of "csv_file csv_wide" cfg0 lib0 csv_wide
      "map ustr [''sno'', ''product_name'', ''image_urls'']"
      "[map ustr [''1'', ''Widget A'', ''http://example.com/a.jpg'']]"
      "map ustr [''2'', ''Widget B'', ''http://example.com/b.png'', ''extra'']" "[]" world0]
      valid hdr csv_wide_sizes(1) csv_wide_rows
    by (simp add: csv_file_simps lib0_simps)
  have "\<exists>p r q d.
          [map ustr [''x'', ''Widget A'', ''http://example.com/a.jpg'']] = p @ r # q
        \<and> validate_rows lib0 p = Inr ()
        \<and> validate_row lib0 r = Inl (HTTPException 400 d)
        \<and> upload_csv lib0 cfg0 (csv_file csv_bad_then_wide) world0
            = (Inl (HTTPException 400 d), world0)"
    using wide_row_rejected [of "csv_file csv_bad_then_wide" cfg0 lib0 csv_bad_then_wide
      "map ustr [''sno'', ''product_name'', ''image_urls'']"
      "[map ustr [''x'', ''Widget A'', ''http://example.com/a.jpg'']]"
      "map ustr [''2'', ''Widget B'', ''http://example.com/b.png'', ''extra'']" "[]" world0]
      bad hdr csv_wide_sizes(2) csv_bad_then_wide_rows
    by (simp add: csv_file_simps lib0_simps)
  then obtain p r q d where
    1: "[map ustr [''x'', ''Widget A'', ''http://example.com/a.jpg'']] = p @ r # q"
       "validate_row lib0 r = Inl (HTTPException 400 d)"
       "upload_csv lib0 cfg0 (csv_file csv_bad_then_wide) world0
          = (Inl (HTTPException 400 d), world0)"
    by (elim exE conjE)
  from 1(1) have "r = map ustr [''x'', ''Widget A'', ''http://example.com/a.jpg'']"
    by (simp add: Cons_eq_append_conv)
  with 1(2) validate_row_bad have "d = ''Invalid S.No. (not a number): x''"
    by simp
  with 1(3) have b: "upload_csv lib0 cfg0 (csv_file csv_bad_then_wide) world0 =
        (Inl (HTTPException 400 ''Invalid S.No. (not a number): x''), world0)"
    by simp
  have c: "upload_csv lib0 cfg0 (csv_file csv_reordered_wide) world0 =
        (Inl (HTTPException 400
           (''CSV file headers are invalid. Allowed headers are ''
              @ py_list [''sno'', ''product_name'', ''image_urls''])),
         world0)"
    using wide_row_rejected [of "csv_file csv_reordered_wide" cfg0 lib0 csv_reordered_wide
      "map ustr [''product_name'', ''sno'', ''image_urls'']" "[]"
      "map ustr [''2'', ''Widget B'', ''http://example.com/b.png'', ''extra'']" "[]" world0]
      headers_reordered csv_wide_sizes(3) csv_reordered_wide_rows
    by (simp add: csv_file_simps lib0_simps cfg0_simps utf8_ustr)
  from a b c valid bad hdr headers_reordered csv_wide_sizes(1) show ?thesis
    by (simp add: csv_file_simps lib0_simps csv_wide_rows csv_bad_then_wide_rows
        csv_reordered_wide_rows)
qed

text \<open>
  C10 as stated fails when an earlier check rejects the upload: here the first data row has
  a first field that is no number, the second data row has four fields, and the response is
  the 400 of the first.
\<close>

theorem wide_row_counterexample:
  "map length (fst (csv_reader lib0 csv_bad_then_wide)) = [3, 3, 4]
   \<and> upload_csv lib0 cfg0 (csv_file csv_bad_then_wide) world0 =
        (Inl (HTTPException 400 ''Invalid S.No. (not a number): x''), world0)"
  using validate_row_bad csv_wide_sizes(2)
  by (simp add: upload_csv_def validate_csv_def csv_file_simps lib0_simps cfg0_simps
      csv_bad_then_wide_rows)

section \<open>The check of the image URLs of a row\<close>

lemma strip_last: "strip s \<noteq> [] \<Longrightarrow> \<not> isspace (last (strip s))"
proof -
  assume ne: "strip s \<noteq> []"
  let ?t = "dropWhile isspace (rev (dropWhile isspace s))"
  from ne have t: "?t \<noteq> []" by (simp add: strip_def)
  then have "\<not> isspace (hd ?t)" by (rule hd_dropWhile)
  moreover have "last (strip s) = hd ?t"
    using t by (simp add: strip_def last_rev)
  ultimately show ?thesis by simp
qed

lemma is_valid_image_url_strip:
  "is_valid_image_url (strip entry) \<longleftrightarrow> re_full url_pattern (strip entry)"
proof -
  have "isspace (Latin (CHR 0x0A))" by (simp add: isspace_def)
  with strip_last [of entry]
  have "strip entry \<noteq> [] \<Longrightarrow> last (strip entry) \<noteq> Latin (CHR 0x0A)"
    by auto
  then show ?thesis
    by (auto simp: is_valid_image_url_def re_match_dollar_def)
qed

text \<open>
  C6, amended. On a data row of exactly three fields, validation fails with the error of
  the image URLs exactly when the first field is a number (\<open>str.isdigit\<close>), the second is
  made of the letters \<open>a\<close> to \<open>z\<close> and \<open>A\<close> to \<open>Z\<close>, the digits \<open>0\<close> to \<open>9\<close> and spaces, with at
  most one newline after them, and some entry of the third field split at commas is, once
  trimmed, not of the form: \<open>http\<close> or \<open>https\<close>, \<open>://\<close>, one character that is neither
  whitespace nor one of \<open>/ $ . ? #\<close>, one character that is not a newline, any number of
  characters that are not whitespace, a dot, and one of \<open>jpg jpeg png gif\<close>. The letters of
  the scheme and of the extension are compared as \<open>re.IGNORECASE\<close> compares the characters
  of a Unicode text: in either case, and with U+017F taken for \<open>s\<close> and U+0130 and U+0131 for
  \<open>i\<close>. Whitespace is that of \<open>str.isspace\<close>, over all of Unicode.
\<close>

theorem invalid_image_url_iff:
  "validate_row lib [sno, product_name, image_urls] =
     Inl (HTTPException 400
       (''Invalid Image Urls in list: '' @ utf8 image_urls @ '' at S.No.: '' @ utf8 sno))
   \<longleftrightarrow>
     isdigit lib sno \<and> is_alphanumeric_with_spaces product_name \<and>
     (\<exists>entry \<in> set (split_comma image_urls).
        \<not> (\<exists>scheme c1 c2 mid ext.
             strip entry = scheme @ ustr ''://'' @ [c1, c2] @ mid @ ustr ''.'' @ ext
             \<and> (caseless scheme ''http'' \<or> caseless scheme ''https'')
             \<and> url_first c1 \<and> not_newline c2 \<and> list_all not_space mid
             \<and> (caseless ext ''jpg'' \<or> caseless ext ''jpeg'' \<or> caseless ext ''png''
                \<or> caseless ext ''gif'')))"
proof -
  have "validate_row lib [sno, product_name, image_urls] =
     Inl (HTTPException 400
       (''Invalid Image Urls in list: '' @ utf8 image_urls @ '' at S.No.: '' @ utf8 sno))
   \<longleftrightarrow>
     isdigit lib sno \<and> is_alphanumeric_with_spaces product_name \<and>
     (\<exists>entry \<in> set (split_comma image_urls). \<not> is_valid_image_url (strip entry))"
    by (simp add: validate_row_def list_all_iff)
  then show ?thesis
    by (simp only: is_valid_image_url_strip url_pattern_lang)
qed

lemma url_bad_txt: "\<not> is_valid_image_url (strip (ustr ''http://x.com/bad.txt''))"
  by (simp add: is_valid_image_url_def re_match_dollar_def strip_def re_run)

lemma url_a_b: "is_valid_image_url (strip (ustr ''http://a b.jpg''))"
  by (simp add: is_valid_image_url_def re_match_dollar_def strip_def re_run)

lemma url_x_a: "is_valid_image_url (strip (ustr ''http://x.com/a.jpg''))"
  by (simp add: is_valid_image_url_def re_match_dollar_def strip_def re_run)

lemma url_long_s_valid: "is_valid_image_url (strip url_long_s)"
  by (simp add: url_long_s_def is_valid_image_url_def re_match_dollar_def strip_def re_run)

lemma split_comma_more:
  "split_comma (ustr ''http://x.com/a.jpg,http://x.com/bad.txt'')
     = [ustr ''http://x.com/a.jpg'', ustr ''http://x.com/bad.txt'']"
  "split_comma url_long_s = [url_long_s]"
  "split_comma (ustr ''http://a b.jpg'') = [ustr ''http://a b.jpg'']"
  by (simp_all add: split_comma_def ustr_def wide_def url_long_s_def)

theorem invalid_image_url_iff_witness:
  "validate_row lib0 (map ustr [''1'', ''Widget A'', ''http://x.com/a.jpg,http://x.com/bad.txt'']) =
     Inl (HTTPException 400
       ''Invalid Image Urls in list: http://x.com/a.jpg,http://x.com/bad.txt at S.No.: 1'')
   \<and> (\<exists>entry \<in> set (split_comma (ustr ''http://x.com/a.jpg,http://x.com/bad.txt'')).
        \<not> (\<exists>scheme c1 c2 mid ext.
             strip entry = scheme @ ustr ''://'' @ [c1, c2] @ mid @ ustr ''.'' @ ext
             \<and> (caseless scheme ''http'' \<or> caseless scheme ''https'')
             \<and> url_first c1 \<and> not_newline c2 \<and> list_all not_space mid
             \<and> (caseless ext ''jpg'' \<or> caseless ext ''jpeg'' \<or> caseless ext ''png''
                \<or> caseless ext ''gif'')))
   \<and> validate_row lib0 [ustr ''1'', ustr ''Widget A'', url_long_s] = Inr ()
   \<and> (\<exists>scheme c1 c2 mid ext.
         strip url_long_s
           = scheme @ ustr ''://'' @ [c1, c2] @ mid @ ustr ''.'' @ ext
         \<and> (caseless scheme ''http'' \<or> caseless scheme ''https'')
         \<and> url_first c1 \<and> not_newline c2 \<and> list_all not_space mid
         \<and> (caseless ext ''jpg'' \<or> caseless ext ''jpeg'' \<or> caseless ext ''png''
            \<or> caseless ext ''gif''))"
proof -
  have bad: "validate_row lib0
       [ustr ''1'', ustr ''Widget A'', ustr ''http://x.com/a.jpg,http://x.com/bad.txt''] =
     Inl (HTTPException 400
       (''Invalid Image Urls in list: '' @ utf8 (ustr ''http://x.com/a.jpg,http://x.com/bad.txt'')
          @ '' at S.No.: '' @ utf8 (ustr ''1'')))"
    using url_bad_txt url_x_a
    by (simp add: validate_row_def fields_valid split_comma_more)
  have good: "validate_row lib0 [ustr ''1'', ustr ''Widget A'', url_long_s] = Inr ()"
    using url_long_s_valid
    by (simp add: validate_row_def fields_valid split_comma_more)
  from bad invalid_image_url_iff [of lib0 "ustr ''1''" "ustr ''Widget A''"
      "ustr ''http://x.com/a.jpg,http://x.com/bad.txt''"]
  have 1: "\<exists>entry \<in> set (split_comma (ustr ''http://x.com/a.jpg,http://x.com/bad.txt'')).
        \<not> (\<exists>scheme c1 c2 mid ext.
             strip entry = scheme @ ustr ''://'' @ [c1, c2] @ mid @ ustr ''.'' @ ext
             \<and> (caseless scheme ''http'' \<or> caseless scheme ''https'')
             \<and> url_first c1 \<and> not_newline c2 \<and> list_all not_space mid
             \<and> (caseless ext ''jpg'' \<or> caseless ext ''jpeg'' \<or> caseless ext ''png''
                \<or> caseless ext ''gif''))"
    by (simp only: simp_thms)
  have 2: "\<exists>scheme c1 c2 mid ext.
         strip url_long_s
           = scheme @ ustr ''://'' @ [c1, c2] @ mid @ ustr ''.'' @ ext
         \<and> (caseless scheme ''http'' \<or> caseless scheme ''https'')
         \<and> url_first c1 \<and> not_newline c2 \<and> list_all not_space mid
         \<and> (caseless ext ''jpg'' \<or> caseless ext ''jpeg'' \<or> caseless ext ''png''
            \<or> caseless ext ''gif'')"
  proof (rule ccontr)
    assume "\<not> (\<exists>scheme c1 c2 mid ext.
         strip url_long_s
           = scheme @ ustr ''://'' @ [c1, c2] @ mid @ ustr ''.'' @ ext
         \<and> (caseless scheme ''http'' \<or> caseless scheme ''https'')
         \<and> url_first c1 \<and> not_newline c2 \<and> list_all not_space mid
         \<and> (caseless ext ''jpg'' \<or> caseless ext ''jpeg'' \<or> caseless ext ''png''
            \<or> caseless ext ''gif''))"
    then have "\<exists>entry \<in> set (split_comma url_long_s).
        \<not> (\<exists>scheme c1 c2 mid ext.
             strip entry = scheme @ ustr ''://'' @ [c1, c2] @ mid @ ustr ''.'' @ ext
             \<and> (caseless scheme ''http'' \<or> caseless scheme ''https'')
             \<and> url_first c1 \<and> not_newline c2 \<and> list_all not_space mid
             \<and> (caseless ext ''jpg'' \<or> caseless ext ''jpeg'' \<or> caseless ext ''png''
                \<or> caseless ext ''gif''))"
      unfolding split_comma_more(2) by (intro bexI [of _ url_long_s]) (assumption, simp)
    with fields_valid(1) [of lib0] fields_valid(4)
    have "isdigit lib0 (ustr ''1'') \<and> is_alphanumeric_with_spaces (ustr ''Widget A'') \<and>
      (\<exists>entry \<in> set (split_comma url_long_s).
        \<not> (\<exists>scheme c1 c2 mid ext.
             strip entry = scheme @ ustr ''://'' @ [c1, c2] @ mid @ ustr ''.'' @ ext
             \<and> (caseless scheme ''http'' \<or> caseless scheme ''https'')
             \<and> url_first c1 \<and> not_newline c2 \<and> list_all not_space mid
             \<and> (caseless ext ''jpg'' \<or> caseless ext ''jpeg'' \<or> caseless ext ''png''
                \<or> caseless ext ''gif'')))"
      by (intro conjI)
    from iffD2 [OF invalid_image_url_iff [of lib0 "ustr ''1''" "ustr ''Widget A''" url_long_s]
        this] good
    show False by simp
  qed
  from bad have 0: "validate_row lib0
       (map ustr [''1'', ''Widget A'', ''http://x.com/a.jpg,http://x.com/bad.txt'']) =
     Inl (HTTPException 400
       ''Invalid Image Urls in list: http://x.com/a.jpg,http://x.com/bad.txt at S.No.: 1'')"
    by (simp add: utf8_ustr)
  from 0 1 good 2 show ?thesis by (intro conjI)
qed

text \<open>
  C6 as stated fails on an entry with whitespace in its host: the dot of the pattern, its
  second character after \<open>://\<close>, takes any character but a newline. The row is accepted
  although its entry does not meet the condition of the specification.
\<close>

theorem whitespace_url_counterexample:
  "\<not> spec_image_url (strip (ustr ''http://a b.jpg''))
   \<and> validate_row lib0 (map ustr [''1'', ''Widget A'', ''http://a b.jpg'']) = Inr ()"
proof -
  have "strip (ustr ''http://a b.jpg'') = ustr ''http://a b.jpg''"
    by (simp add: strip_def isspace_def ustr_def wide_def)
  then have "\<not> spec_image_url (strip (ustr ''http://a b.jpg''))"
    by (simp add: spec_image_url_def isspace_def ustr_def wide_def)
  moreover have "validate_row lib0 (map ustr [''1'', ''Widget A'', ''http://a b.jpg'']) = Inr ()"
    using url_a_b
    by (simp add: validate_row_def fields_valid split_comma_more)
  ultimately show ?thesis by simp
qed

end
